theory Spec2Isabelle
  imports Complex_Main
begin

section \<open>Numbers\<close>

text \<open>
  All quantities of the TypeScript and JavaScript sources are values of type \<open>number\<close>.
  They are modelled as exact reals: a salary, a hiring cost, a level and an amortized cost
  is a \<open>real\<close>; a loop counter (a duration in weeks) is a \<open>nat\<close>; \<open>Math.pow(1 + g, T + 1)\<close>
  with a counter \<open>T\<close> is \<open>(1 + g) ^ (T + 1)\<close>. Rounding and overflow are not part of the
  model. Two divisors of the sources can be zero. The growth factor, by which the script
  divides without a test, is zero at level \<open>-3\<close> only; the model of the script states what
  JavaScript returns then. The distance of two salaries, by which the interpolator
  divides, is zero only when two reference points of a level share a salary; the
  components build the points from the keys of an object, which are pairwise different,
  and what is proved of the interpolated values assumes that they are. A duration is at
  least 1 wherever the sources divide by it.

  The only non-finite number the sources write down is the literal \<open>Infinity\<close>, the start
  value of the running minimum of two scans. It is kept as a constructor.
\<close>

datatype number = Infinity | Finite real

text \<open>\<open>x < m\<close> for a finite \<open>x\<close> and a running minimum \<open>m\<close> that may still be \<open>Infinity\<close>.\<close>

fun less_number :: "real \<Rightarrow> number \<Rightarrow> bool" where
  "less_number x Infinity = True"
| "less_number x (Finite m) = (x < m)"

section \<open>Growth factor\<close>

text \<open>\<open>growthFactor\<close>, the same function in all three components and in the script.\<close>

definition growthFactor :: "real \<Rightarrow> real" where
  "growthFactor level = 0.01 + (level - 1) * 0.0025"

section \<open>Reference data and its interpolation (AmortizedCostChart.tsx)\<close>

record point =
  salary :: real
  cost :: real

text \<open>The parameters of one level: \<open>{ points: Array<{salary, cost}> }\<close>.\<close>

record levelParams =
  points :: "point list"

datatype formulaType = interpolated | manual

text \<open>\<open>HiringCostFormula\<close>; \<open>parameters\<close> is an object keyed by level.\<close>

record hiringCostFormula =
  ftype :: formulaType
  formula :: string
  parameters :: "real \<rightharpoonup> levelParams"
  rSquared :: "real option"

text \<open>
  The last loop of \<open>interpolateHiringCost\<close>: the first pair of neighbours of the sorted
  list that encloses the salary; \<open>null\<close> (here \<open>None\<close>) when the loop ends without one.
\<close>

fun interpolateBetween :: "real \<Rightarrow> point list \<Rightarrow> real option" where
  "interpolateBetween s (p1 # p2 # ps) =
     (if salary p1 \<le> s \<and> s \<le> salary p2 then
        (let ratio = (s - salary p1) / (salary p2 - salary p1)
         in Some (cost p1 + ratio * (cost p2 - cost p1)))
      else interpolateBetween s (p2 # ps))"
| "interpolateBetween s ps = None"

text \<open>
  \<open>interpolateHiringCost\<close>. \<open>[...points].sort((a, b) => a.salary - b.salary)\<close> is a stable
  sort by salary, as \<open>sort_key\<close> is.
\<close>

definition interpolateHiringCost :: "real \<Rightarrow> point list \<Rightarrow> real option" where
  "interpolateHiringCost s pts =
     (if length pts = 0 then None
      else if length pts = 1 then Some (cost (pts ! 0))
      else
        (let sortedPoints = sort_key salary pts in
         case List.find (\<lambda>p. salary p = s) sortedPoints of
           Some exactMatch \<Rightarrow> Some (cost exactMatch)
         | None \<Rightarrow>
             if s < salary (sortedPoints ! 0) \<and> length sortedPoints \<ge> 2 then
               (let p1 = sortedPoints ! 0;
                    p2 = sortedPoints ! 1;
                    slope = (cost p2 - cost p1) / (salary p2 - salary p1)
                in Some (cost p1 + slope * (s - salary p1)))
             else if s > salary (sortedPoints ! (length sortedPoints - 1))
                     \<and> length sortedPoints \<ge> 2 then
               (let p1 = sortedPoints ! (length sortedPoints - 2);
                    p2 = sortedPoints ! (length sortedPoints - 1);
                    slope = (cost p2 - cost p1) / (salary p2 - salary p1)
                in Some (cost p2 + slope * (s - salary p2)))
             else interpolateBetween s sortedPoints))"

text \<open>
  \<open>HiringCostData\<close>: for a level, the entries \<open>salary: cost | null\<close> of an object, in the order
  \<open>Object.entries\<close> lists integer keys (ascending). \<open>INITIAL_HIRING_DATA\<close> is the market
  data the components start from.
\<close>

type_synonym hiringCostData = "real \<rightharpoonup> (real \<times> real option) list"

definition INITIAL_HIRING_DATA :: hiringCostData where
  "INITIAL_HIRING_DATA =
     [3 \<mapsto> [(6000, Some 30000), (7000, Some 10000), (8000, Some 1000), (9000, Some 1000),
            (10000, Some 1000), (11000, Some 1000), (12000, Some 1000)],
      4 \<mapsto> [(9000, Some 40000), (10000, Some 20000), (11000, Some 5000), (12000, Some 1000),
            (13000, Some 1000), (14000, Some 1000)]]"

text \<open>
  \<open>generateHiringFormula\<close>: per level, the entries with a cost, as points; a level without
  such an entry gets no parameters. The filter leaves no \<open>null\<close>, so \<open>cost!\<close> is \<open>the c\<close>.
\<close>

definition generateHiringFormula :: "hiringCostData \<Rightarrow> hiringCostFormula" where
  "generateHiringFormula d =
     \<lparr>ftype = interpolated,
      formula = ''Linear interpolation between data points'',
      parameters =
        (\<lambda>level. case d level of
           None \<Rightarrow> None
         | Some salaryData \<Rightarrow>
             (let entries = filter (\<lambda>(s, c). c \<noteq> None) salaryData
              in if length entries \<ge> 1 then
                   Some \<lparr>points = map (\<lambda>(s, c). \<lparr>salary = s, cost = the c\<rparr>) entries\<rparr>
                 else None)),
      rSquared = None\<rparr>"

text \<open>\<open>hiringCost\<close>: the interpolated cost, floored at 1000; 1000 for a level without data.\<close>

definition hiringCost :: "real \<Rightarrow> real \<Rightarrow> hiringCostFormula \<Rightarrow> real" where
  "hiringCost startingSalary level f =
     (case parameters f level of
        None \<Rightarrow> 1000
      | Some params \<Rightarrow>
          if length (points params) = 0 then 1000
          else (case interpolateHiringCost startingSalary (points params) of
                  Some v \<Rightarrow> max 1000 v
                | None \<Rightarrow> 1000))"

section \<open>Cost model and scan for the minimum (AmortizedCostChart.tsx)\<close>

text \<open>
  \<open>calculateAmortizedCost\<close>. Every call site passes a week \<open>T \<ge> 1\<close>; the division by
  \<open>T\<close> is meant for such \<open>T\<close> only.
\<close>

definition calculateAmortizedCost :: "real \<Rightarrow> nat \<Rightarrow> real \<Rightarrow> hiringCostFormula \<Rightarrow> real" where
  "calculateAmortizedCost S T level hiringFormula =
     (let g = growthFactor level;
          h = hiringCost S level hiringFormula
      in if g = 0 then (h + S * (real T + 1)) / real T
         else (let maintenanceSum = S * ((1 + g) ^ (T + 1) - 1) / g
               in (h + maintenanceSum) / real T))"

text \<open>
  The loop of \<open>findAmortizedCostMinimum\<close>: \<open>for (let t = 1; t <= 500; t++)\<close> with the
  running pair \<open>(minWeek, minCost)\<close>; \<open>c t\<close> is the cost the body computes for week \<open>t\<close>.
\<close>

function minimumLoop :: "(nat \<Rightarrow> real) \<Rightarrow> nat \<Rightarrow> nat \<Rightarrow> real \<Rightarrow> nat \<times> real" where
  "minimumLoop c t minWeek minCost =
     (if t \<le> 500 then
        (if c t < minCost then minimumLoop c (Suc t) t (c t)
         else minimumLoop c (Suc t) minWeek minCost)
      else (minWeek, minCost))"
  by pat_completeness auto
termination
  by (relation "measure (\<lambda>(c, t, minWeek, minCost). 501 - t)") auto

declare minimumLoop.simps [simp del]

record minimum =
  week :: nat
  minimalCost :: real

text \<open>
  \<open>findAmortizedCostMinimum\<close>; \<open>null\<close> is \<open>None\<close>, field \<open>cost\<close> of the result is
  \<open>minimalCost\<close>. The hiring cost \<open>h\<close> the function computes first is used nowhere in it.
\<close>

definition findAmortizedCostMinimum :: "real \<Rightarrow> real \<Rightarrow> hiringCostFormula \<Rightarrow> minimum option" where
  "findAmortizedCostMinimum S level hiringFormula =
     (let g = growthFactor level
      in if g = 0 then None
         else (case minimumLoop (\<lambda>t. calculateAmortizedCost S t level hiringFormula) 1 1
                      (calculateAmortizedCost S 1 level hiringFormula) of
                 (minWeek, minCost) \<Rightarrow> Some \<lparr>week = minWeek, minimalCost = minCost\<rparr>))"

section \<open>Optimal duration and its inversion (MaxHiringFeeChart.tsx)\<close>

text \<open>
  The scan \<open>for (let T = 1; T <= tMax; T++)\<close> of \<open>findOptimalDuration\<close> (\<open>tMax = 500\<close>) and
  of the script's \<open>calculateOptimalAmortizedCost\<close> (\<open>tMax = 150\<close>), with the running pair
  \<open>(bestT, minCost)\<close> that starts at \<open>(1, Infinity)\<close>; \<open>c T\<close> is the amortized cost the body
  computes for duration \<open>T\<close>.
\<close>

function scanLoop :: "(nat \<Rightarrow> real) \<Rightarrow> nat \<Rightarrow> nat \<Rightarrow> nat \<Rightarrow> number \<Rightarrow> nat \<times> number" where
  "scanLoop c tMax T bestT minCost =
     (if T \<le> tMax then
        (if less_number (c T) minCost then scanLoop c tMax (Suc T) T (Finite (c T))
         else scanLoop c tMax (Suc T) bestT minCost)
      else (bestT, minCost))"
  by pat_completeness auto
termination
  by (relation "measure (\<lambda>(c, tMax, T, bestT, minCost). Suc tMax - T)") auto

declare scanLoop.simps [simp del]

text \<open>\<open>findOptimalDuration\<close>: the default 100 when the growth factor is zero, the scan otherwise.\<close>

definition findOptimalDuration :: "real \<Rightarrow> real \<Rightarrow> real \<Rightarrow> nat" where
  "findOptimalDuration hCost S level =
     (let g = growthFactor level
      in if g = 0 then 100
         else fst (scanLoop (\<lambda>T. (hCost + S * ((1 + g) ^ (T + 1) - 1) / g) / real T)
                     500 1 1 Infinity))"

text \<open>The result \<open>{ cost, duration }\<close>; field \<open>cost\<close> is \<open>optimalCost\<close>.\<close>

record 'c optimum =
  optimalCost :: 'c
  duration :: nat

definition calculateOptimalAmortizedCost :: "real \<Rightarrow> real \<Rightarrow> real \<Rightarrow> real optimum" where
  "calculateOptimalAmortizedCost hCost S level =
     (let optimalDuration = findOptimalDuration hCost S level;
          g = growthFactor level;
          maintenanceSum =
            (if g = 0 then S * (real optimalDuration + 1)
             else S * ((1 + g) ^ (optimalDuration + 1) - 1) / g);
          amortizedCost = (hCost + maintenanceSum) / real optimalDuration
      in \<lparr>optimalCost = amortizedCost, duration = optimalDuration\<rparr>)"

text \<open>The result \<open>{ hiringCost, duration }\<close> of the inversion, named after the variables returned.\<close>

record inversion =
  bestHiringCost :: real
  bestDuration :: nat

text \<open>
  The bisection of \<open>findHiringCostForTarget\<close>: \<open>for (let iter = 0; iter < 50; iter++)\<close>;
  \<open>break\<close> leaves the loop with the midpoint as the answer.
\<close>

function bisectionLoop ::
  "real \<Rightarrow> real \<Rightarrow> real \<Rightarrow> nat \<Rightarrow> real \<Rightarrow> real \<Rightarrow> real \<Rightarrow> nat \<Rightarrow> inversion" where
  "bisectionLoop targetCost S level iter low high bestH bestD =
     (if iter < 50 then
        (let mid = (low + high) / 2;
             result = calculateOptimalAmortizedCost mid S level
         in if \<bar>optimalCost result - targetCost\<bar> < 1 then
              \<lparr>bestHiringCost = mid, bestDuration = duration result\<rparr>
            else if optimalCost result > targetCost then
              bisectionLoop targetCost S level (Suc iter) low mid mid (duration result)
            else
              bisectionLoop targetCost S level (Suc iter) mid high mid (duration result))
      else \<lparr>bestHiringCost = bestH, bestDuration = bestD\<rparr>)"
  by pat_completeness auto
termination
  by (relation "measure (\<lambda>(targetCost, S, level, iter, low, high, bestH, bestD). 50 - iter)")
    auto

declare bisectionLoop.simps [simp del]

definition findHiringCostForTarget :: "real \<Rightarrow> real \<Rightarrow> real \<Rightarrow> inversion" where
  "findHiringCostForTarget targetCost S level =
     bisectionLoop targetCost S level 0 1000 1000000 1000 1"

text \<open>
  The target costs and the salary grid of \<open>MaxHiringFeeChart\<close>, both chosen by level.
\<close>

definition targetCosts :: "real \<Rightarrow> real list" where
  "targetCosts level =
     (if level = 3 then [7000, 8000, 9000, 10000]
      else if level = 4 then [9000, 10000, 11000, 12000, 13000, 14000]
      else if level = 5 then [14000, 16000, 18000, 20000, 22000, 24000, 26000]
      else [7000, 8000, 9000, 10000])"

definition salaryRange :: "real \<Rightarrow> real list" where
  "salaryRange level =
     (if level = 3 then map (\<lambda>i. 4000 + real i * 200) [0..<21]
      else if level = 4 then map (\<lambda>i. 7000 + real i * 200) [0..<21]
      else if level = 5 then map (\<lambda>i. 10000 + real i * 200) [0..<51]
      else map (\<lambda>i. 8000 + real i * 200) [0..<41])"

text \<open>
  \<open>SalaryHiringFeePoint\<close>: the salary and the dynamic keys \<open>cost<target>\<close> and
  \<open>duration<target>\<close>, kept as two maps from the target cost.
\<close>

record salaryHiringFeePoint =
  pointSalary :: real
  costKey :: "real \<rightharpoonup> real"
  durationKey :: "real \<rightharpoonup> nat"

text \<open>The inner loop of \<open>salaryData\<close> over the target costs, with the flag \<open>hasValidData\<close>.\<close>

fun fillDataPoint ::
  "real \<Rightarrow> real \<Rightarrow> real list \<Rightarrow> salaryHiringFeePoint \<Rightarrow> bool \<Rightarrow> salaryHiringFeePoint \<times> bool" where
  "fillDataPoint level S [] dataPoint hasValidData = (dataPoint, hasValidData)"
| "fillDataPoint level S (targetCost # rest) dataPoint hasValidData =
     (let result = findHiringCostForTarget targetCost S level
      in if bestHiringCost result > 1001 \<and> bestHiringCost result \<le> 1000000 then
           fillDataPoint level S rest
             (dataPoint\<lparr>costKey := (costKey dataPoint)(targetCost \<mapsto> bestHiringCost result),
                        durationKey := (durationKey dataPoint)(targetCost \<mapsto> bestDuration result)\<rparr>)
             True
         else fillDataPoint level S rest dataPoint hasValidData)"

text \<open>The outer loop over the salaries: a point is pushed only when it holds a valid fee.\<close>

fun salaryDataLoop :: "real \<Rightarrow> real list \<Rightarrow> real list \<Rightarrow> salaryHiringFeePoint list" where
  "salaryDataLoop level tcs [] = []"
| "salaryDataLoop level tcs (S # rest) =
     (case fillDataPoint level S tcs
             \<lparr>pointSalary = S, costKey = Map.empty, durationKey = Map.empty\<rparr> False of
        (dataPoint, hasValidData) \<Rightarrow>
          if hasValidData then dataPoint # salaryDataLoop level tcs rest
          else salaryDataLoop level tcs rest)"

definition salaryData :: "real \<Rightarrow> salaryHiringFeePoint list" where
  "salaryData level = salaryDataLoop level (targetCosts level) (salaryRange level)"

section \<open>The data-dump script (extract-tooltip-data.js)\<close>

text \<open>
  The script's \<open>calculateOptimalAmortizedCost\<close>: 150 durations, and the running minimum
  itself is returned as the cost. The script has no test for a zero growth factor: with
  \<open>g = 0\<close> the growth term is \<open>0 / 0\<close>, which is NaN in JavaScript, so is every amortized
  cost, no comparison \<open>amortizedCost < minCost\<close> succeeds, and the start values
  \<open>(Infinity, 1)\<close> are returned. The first branch of the model is this case. The growth
  term is grouped as the script has it, \<open>salary * ((pow - 1) / g)\<close>, where the chart has
  \<open>salary * (pow - 1) / g\<close>: numbers are exact reals here, so the two groupings denote the
  same number, while in binary64 they can round differently.
\<close>

definition calculateOptimalAmortizedCost_cli :: "real \<Rightarrow> real \<Rightarrow> real \<Rightarrow> number optimum" where
  "calculateOptimalAmortizedCost_cli hiringCostInput S level =
     (let g = growthFactor level
      in if g = 0 then \<lparr>optimalCost = Infinity, duration = 1\<rparr>
         else
           (case scanLoop (\<lambda>T. (hiringCostInput + S * (((1 + g) ^ (T + 1) - 1) / g)) / real T)
                   150 1 1 Infinity of
              (optimalDuration, minCost) \<Rightarrow>
                \<lparr>optimalCost = minCost, duration = optimalDuration\<rparr>))"

text \<open>\<open>Math.abs(x - t) < 1\<close> and \<open>x > t\<close> for a cost \<open>x\<close> that may be \<open>Infinity\<close>.\<close>

fun closeTo :: "number \<Rightarrow> real \<Rightarrow> bool" where
  "closeTo Infinity t = False"
| "closeTo (Finite x) t = (\<bar>x - t\<bar> < 1)"

fun greater_number :: "number \<Rightarrow> real \<Rightarrow> bool" where
  "greater_number Infinity t = True"
| "greater_number (Finite x) t = (x > t)"

function bisectionLoop_cli ::
  "real \<Rightarrow> real \<Rightarrow> real \<Rightarrow> nat \<Rightarrow> real \<Rightarrow> real \<Rightarrow> real \<Rightarrow> nat \<Rightarrow> inversion" where
  "bisectionLoop_cli targetCost S level iter low high bestH bestD =
     (if iter < 50 then
        (let mid = (low + high) / 2;
             result = calculateOptimalAmortizedCost_cli mid S level
         in if closeTo (optimalCost result) targetCost then
              \<lparr>bestHiringCost = mid, bestDuration = duration result\<rparr>
            else if greater_number (optimalCost result) targetCost then
              bisectionLoop_cli targetCost S level (Suc iter) low mid mid (duration result)
            else
              bisectionLoop_cli targetCost S level (Suc iter) mid high mid (duration result))
      else \<lparr>bestHiringCost = bestH, bestDuration = bestD\<rparr>)"
  by pat_completeness auto
termination
  by (relation "measure (\<lambda>(targetCost, S, level, iter, low, high, bestH, bestD). 50 - iter)")
    auto

declare bisectionLoop_cli.simps [simp del]

definition findHiringCostForTarget_cli :: "real \<Rightarrow> real \<Rightarrow> real \<Rightarrow> inversion" where
  "findHiringCostForTarget_cli targetCost S level =
     bisectionLoop_cli targetCost S level 0 1000 1000000 1000 1"






section \<open>The contracts of the specification\<close>

text \<open>
  The Cost Model as the specification writes it, with the acquisition cost as an
  argument: the closed form of the geometric sum, and the degenerate sum when the growth
  factor is zero.
\<close>

definition amortizedCost_spec :: "real \<Rightarrow> nat \<Rightarrow> real \<Rightarrow> real \<Rightarrow> real" where
  "amortizedCost_spec S T level acquisitionCost =
     (if growthFactor level = 0 then (acquisitionCost + S * (real T + 1)) / real T
      else (acquisitionCost + S * ((1 + growthFactor level) ^ (T + 1) - 1) / growthFactor level)
             / real T)"

text \<open>
  \<open>firstMinimizer c tMax w\<close>: the duration \<open>w\<close> lies in \<open>[1, tMax]\<close>, no duration of the range
  costs less than \<open>w\<close>, and every earlier duration costs strictly more.
\<close>

definition firstMinimizer :: "(nat \<Rightarrow> real) \<Rightarrow> nat \<Rightarrow> nat \<Rightarrow> bool" where
  "firstMinimizer c tMax w \<longleftrightarrow>
     w \<in> {1..tMax} \<and> (\<forall>k \<in> {1..tMax}. c w \<le> c k) \<and> (\<forall>k \<in> {1..<w}. c w < c k)"

section \<open>Growth factor and cost model: basic facts\<close>

lemma growthFactor_pos: "1 \<le> level \<Longrightarrow> 0 < growthFactor level"
  unfolding growthFactor_def by (simp add: field_simps)

lemma growthFactor_zero_iff: "growthFactor level = 0 \<longleftrightarrow> level = -3"
  unfolding growthFactor_def by (simp add: field_simps) linarith

text \<open>The component's cost function is the contract, at the estimated hiring cost.\<close>

lemma calculateAmortizedCost_amortizedCost:
  "calculateAmortizedCost S T level f = amortizedCost_spec S T level (hiringCost S level f)"
  unfolding calculateAmortizedCost_def amortizedCost_spec_def by (simp add: Let_def)

lemma geometric_closed_form:
  fixes g :: real
  assumes "g \<noteq> 0"
  shows "(\<Sum>t = 0..T. (1 + g) ^ t) = ((1 + g) ^ (T + 1) - 1) / g"
proof -
  have "(\<Sum>t<Suc T. (1 + g) ^ t) = ((1+g) ^ Suc T - 1) / ((1 + g) - 1)"
    using assms geometric_sum[of "1 + g" "Suc T"] by simp
  moreover have "{0..T} = {..<Suc T}" by auto
  ultimately show ?thesis by simp
qed

lemma amortizedCost_sum:
  "amortizedCost_spec S T level a = (a + S * (\<Sum>t = 0..T. (1 + growthFactor level) ^ t)) / real T"
proof (cases "growthFactor level = 0")
  case True
  then show ?thesis unfolding amortizedCost_spec_def by simp
next
  case False
  then show ?thesis unfolding amortizedCost_spec_def
    by (simp add: geometric_closed_form[OF False])
qed

lemma chart_body_amortizedCost:
  assumes "growthFactor level \<noteq> 0"
  shows "(\<lambda>T. (h + S * ((1 + growthFactor level) ^ (T + 1) - 1) / growthFactor level) / real T)
           = (\<lambda>T. amortizedCost_spec S T level h)"
  using assms unfolding amortizedCost_spec_def by (simp add: fun_eq_iff)

lemma cli_body_amortizedCost:
  assumes "growthFactor level \<noteq> 0"
  shows "(\<lambda>T. (h + S * (((1 + growthFactor level) ^ (T + 1) - 1) / growthFactor level)) / real T)
           = (\<lambda>T. amortizedCost_spec S T level h)"
  using assms unfolding amortizedCost_spec_def by (simp add: fun_eq_iff)

lemma initial_level3:
  "parameters (generateHiringFormula INITIAL_HIRING_DATA) 3 =
     Some \<lparr>points = [\<lparr>salary = 6000, cost = 30000\<rparr>, \<lparr>salary = 7000, cost = 10000\<rparr>,
       \<lparr>salary = 8000, cost = 1000\<rparr>, \<lparr>salary = 9000, cost = 1000\<rparr>, \<lparr>salary = 10000, cost = 1000\<rparr>,
       \<lparr>salary = 11000, cost = 1000\<rparr>, \<lparr>salary = 12000, cost = 1000\<rparr>]\<rparr>"
  unfolding generateHiringFormula_def INITIAL_HIRING_DATA_def by simp

lemma initial_hiringCost_8000:
  "hiringCost 8000 3 (generateHiringFormula INITIAL_HIRING_DATA) = 1000"
  unfolding hiringCost_def initial_level3 interpolateHiringCost_def by simp

section \<open>The scans return the first minimizer\<close>

lemma firstMinimizer_Min:
  assumes "firstMinimizer c tMax w"
  shows "c w = Min (c ` {1..tMax})"
proof -
  have "w \<in> {1..tMax}" using assms unfolding firstMinimizer_def by simp
  then have "c w \<in> c ` {1..tMax}" by blast
  moreover have "\<And>y. y \<in> c ` {1..tMax} \<Longrightarrow> c w \<le> y"
    using assms unfolding firstMinimizer_def by auto
  ultimately show ?thesis using Min_eqI[of "c ` {1..tMax}" "c w"] by simp
qed

lemma firstMinimizer_least:
  assumes "firstMinimizer c tMax w" "1 \<le> T" "c T = c w"
  shows "w \<le> T"
proof (rule ccontr)
  assume "\<not> w \<le> T"
  then have "c w < c T" using assms(1,2) unfolding firstMinimizer_def by simp
  with assms(3) show False by simp
qed


lemma minimumLoop_inv:
  assumes "1 \<le> t" "1 \<le> w" "w \<le> 500" "w < t \<or> (t = 1 \<and> w = 1)" "m = c w"
    "\<forall>k. 1 \<le> k \<and> k < t \<longrightarrow> m \<le> c k" "\<forall>k. 1 \<le> k \<and> k < w \<longrightarrow> m < c k"
  shows "\<exists>w'. minimumLoop c t w m = (w', c w') \<and> firstMinimizer c 500 w'"
  using assms
proof (induction c t w m rule: minimumLoop.induct)
  case (1 c t minWeek minCost)
  show ?case
  proof (cases "t \<le> 500")
    case False
    then have "\<forall>k. 1 \<le> k \<and> k \<le> 500 \<longrightarrow> minCost \<le> c k" using "1.prems" by auto
    then have "firstMinimizer c 500 minWeek"
      unfolding firstMinimizer_def using "1.prems" by simp
    with False "1.prems"(5) show ?thesis by (simp add: minimumLoop.simps[of c t])
  next
    case True
    show ?thesis
    proof (cases "c t < minCost")
      case less: True
      have a: "\<forall>k. 1 \<le> k \<and> k < Suc t \<longrightarrow> c t \<le> c k"
        using less "1.prems" by (metis less_Suc_eq less_eq_real_def order_less_le_trans)
      have b: "\<forall>k. 1 \<le> k \<and> k < t \<longrightarrow> c t < c k"
        using less "1.prems" by (meson order_less_le_trans)
      have "\<exists>w'. minimumLoop c (Suc t) t (c t) = (w', c w') \<and> firstMinimizer c 500 w'"
        using "1.IH"(1)[OF True less] True "1.prems"(1) a b by simp
      then show ?thesis using True less by (simp add: minimumLoop.simps[of c t])
    next
      case geq: False
      have a: "\<forall>k. 1 \<le> k \<and> k < Suc t \<longrightarrow> minCost \<le> c k"
        using geq "1.prems" by (metis less_Suc_eq not_less)
      have w: "minWeek < Suc t" using "1.prems" by auto
      have "\<exists>w'. minimumLoop c (Suc t) minWeek minCost = (w', c w') \<and> firstMinimizer c 500 w'"
        using "1.IH"(2)[OF True geq] "1.prems" a w by simp
      then show ?thesis using True geq by (simp add: minimumLoop.simps[of c t])
    qed
  qed
qed

lemma minimumLoop_firstMinimizer:
  "\<exists>w. minimumLoop c 1 1 (c 1) = (w, c w) \<and> firstMinimizer c 500 w"
  using minimumLoop_inv[of 1 1 "c 1" c] by simp

lemma findAmortizedCostMinimum_firstMinimizer:
  assumes "growthFactor level \<noteq> 0"
  shows "\<exists>w. findAmortizedCostMinimum S level f
             = Some \<lparr>week = w, minimalCost = calculateAmortizedCost S w level f\<rparr>
           \<and> firstMinimizer (\<lambda>T. calculateAmortizedCost S T level f) 500 w"
proof -
  let ?c = "\<lambda>T. calculateAmortizedCost S T level f"
  obtain w where w: "minimumLoop ?c 1 1 (?c 1) = (w, ?c w)" "firstMinimizer ?c 500 w"
    using minimumLoop_firstMinimizer[of ?c] by blast
  have "findAmortizedCostMinimum S level f = Some \<lparr>week = w, minimalCost = ?c w\<rparr>"
    unfolding findAmortizedCostMinimum_def using assms w(1) by (simp add: Let_def)
  with w(2) show ?thesis by blast
qed

lemma scanLoop_inv:
  assumes "1 \<le> T" "T \<le> Suc tMax" "1 \<le> tMax"
    "(T = 1 \<and> minCost = Infinity) \<or>
     (1 \<le> bestT \<and> bestT < T \<and> minCost = Finite (c bestT) \<and>
      (\<forall>k. 1 \<le> k \<and> k < T \<longrightarrow> c bestT \<le> c k) \<and> (\<forall>k. 1 \<le> k \<and> k < bestT \<longrightarrow> c bestT < c k))"
  shows "\<exists>w. scanLoop c tMax T bestT minCost = (w, Finite (c w)) \<and> firstMinimizer c tMax w"
  using assms
proof (induction c tMax T bestT minCost rule: scanLoop.induct)
  case (1 c tMax T bestT minCost)
  show ?case
  proof (cases "T \<le> tMax")
    case False
    then have T: "T = Suc tMax" using "1.prems" by simp
    with "1.prems" have inv: "1 \<le> bestT" "bestT < T" "minCost = Finite (c bestT)"
      "\<forall>k. 1 \<le> k \<and> k < T \<longrightarrow> c bestT \<le> c k" "\<forall>k. 1 \<le> k \<and> k < bestT \<longrightarrow> c bestT < c k"
      by auto
    have "firstMinimizer c tMax bestT"
      unfolding firstMinimizer_def using inv T by auto
    moreover have "scanLoop c tMax T bestT minCost = (bestT, minCost)"
      using False by (simp add: scanLoop.simps[of c tMax T])
    ultimately show ?thesis using inv(3) by simp
  next
    case True
    show ?thesis
    proof (cases "less_number (c T) minCost")
      case less: True
      have a: "\<forall>k. 1 \<le> k \<and> k < Suc T \<longrightarrow> c T \<le> c k"
      proof (intro allI impI)
        fix k assume k: "1 \<le> k \<and> k < Suc T"
        show "c T \<le> c k"
        proof (cases "k = T")
          case True then show ?thesis by simp
        next
          case False
          then have kT: "k < T" using k by simp
          then have "T \<noteq> 1" using k by auto
          with "1.prems"(4) have "minCost = Finite (c bestT)" "c bestT \<le> c k"
            using k kT by auto
          with less show ?thesis by simp
        qed
      qed
      have b: "\<forall>k. 1 \<le> k \<and> k < T \<longrightarrow> c T < c k"
      proof (intro allI impI)
        fix k assume k: "1 \<le> k \<and> k < T"
        then have "T \<noteq> 1" by auto
        with "1.prems"(4) have "minCost = Finite (c bestT)" "c bestT \<le> c k"
          using k by auto
        with less show "c T < c k" by simp
      qed
      have "\<exists>w. scanLoop c tMax (Suc T) T (Finite (c T)) = (w, Finite (c w)) \<and> firstMinimizer c tMax w"
        using "1.IH"(1)[OF True less] True "1.prems"(1,3) a b by simp
      then show ?thesis using True less by (simp add: scanLoop.simps[of c tMax T])
    next
      case geq: False
      then have fin: "minCost = Finite (c bestT)" "1 \<le> bestT" "bestT < T"
        "\<forall>k. 1 \<le> k \<and> k < T \<longrightarrow> c bestT \<le> c k" "\<forall>k. 1 \<le> k \<and> k < bestT \<longrightarrow> c bestT < c k"
        using "1.prems"(4) by auto
      have a: "\<forall>k. 1 \<le> k \<and> k < Suc T \<longrightarrow> c bestT \<le> c k"
        using geq fin by (metis less_Suc_eq less_number.simps(2) not_less)
      have "\<exists>w. scanLoop c tMax (Suc T) bestT minCost = (w, Finite (c w)) \<and> firstMinimizer c tMax w"
        using "1.IH"(2)[OF True geq] True "1.prems"(1,3) fin a by simp
      then show ?thesis using True geq by (simp add: scanLoop.simps[of c tMax T])
    qed
  qed
qed

lemma scanLoop_firstMinimizer:
  assumes "1 \<le> tMax"
  shows "\<exists>w. scanLoop c tMax 1 1 Infinity = (w, Finite (c w)) \<and> firstMinimizer c tMax w"
  using scanLoop_inv[of 1 tMax Infinity 1 c] assms by simp

lemma findOptimalDuration_firstMinimizer:
  assumes "growthFactor level \<noteq> 0"
  shows "firstMinimizer (\<lambda>T. amortizedCost_spec S T level h) 500 (findOptimalDuration h S level)"
proof -
  let ?c = "\<lambda>T. amortizedCost_spec S T level h"
  obtain w where w: "scanLoop ?c 500 1 1 Infinity = (w, Finite (?c w))" "firstMinimizer ?c 500 w"
    using scanLoop_firstMinimizer[of 500 ?c] by auto
  have "findOptimalDuration h S level = w"
    unfolding findOptimalDuration_def Let_def chart_body_amortizedCost[OF assms]
    using assms w(1) by simp
  with w(2) show ?thesis by simp
qed

lemma findOptimalDuration_zero_growth:
  "growthFactor level = 0 \<Longrightarrow> findOptimalDuration h S level = 100"
  unfolding findOptimalDuration_def by simp

lemma calculateOptimalAmortizedCost_eq:
  "calculateOptimalAmortizedCost h S level =
     \<lparr>optimalCost = amortizedCost_spec S (findOptimalDuration h S level) level h,
      duration = findOptimalDuration h S level\<rparr>"
  unfolding calculateOptimalAmortizedCost_def amortizedCost_spec_def by (simp add: Let_def)

lemma calculateOptimalAmortizedCost_cli_firstMinimizer:
  assumes "growthFactor level \<noteq> 0"
  shows "\<exists>w. calculateOptimalAmortizedCost_cli h S level =
              \<lparr>optimalCost = Finite (amortizedCost_spec S w level h), duration = w\<rparr>
           \<and> firstMinimizer (\<lambda>T. amortizedCost_spec S T level h) 150 w"
proof -
  let ?c = "\<lambda>T. amortizedCost_spec S T level h"
  obtain w where w: "scanLoop ?c 150 1 1 Infinity = (w, Finite (?c w))" "firstMinimizer ?c 150 w"
    using scanLoop_firstMinimizer[of 150 ?c] by auto
  have "calculateOptimalAmortizedCost_cli h S level = \<lparr>optimalCost = Finite (?c w), duration = w\<rparr>"
    unfolding calculateOptimalAmortizedCost_cli_def Let_def cli_body_amortizedCost[OF assms]
    using w(1) assms by simp
  with w(2) show ?thesis by blast
qed

section \<open>The optimal cost as a function of the hiring cost\<close>

lemma amortizedCost_shift:
  "amortizedCost_spec S T level a' = amortizedCost_spec S T level a + (a' - a) / real T"
  unfolding amortizedCost_spec_def by (simp add: add_divide_distrib diff_divide_distrib)

lemma amortizedCost_mono:
  assumes "a \<le> a'"
  shows "amortizedCost_spec S T level a \<le> amortizedCost_spec S T level a'"
proof -
  have "0 \<le> (a' - a) / real T" using assms by simp
  then show ?thesis using amortizedCost_shift[of S T level a' a] by linarith
qed

lemma amortizedCost_nonneg:
  assumes "0 < S" "1 \<le> level" "0 \<le> a"
  shows "0 \<le> amortizedCost_spec S T level a"
proof -
  have g: "0 < growthFactor level" using assms(2) by (rule growthFactor_pos)
  then have "1 \<le> 1 + growthFactor level" by simp
  then have "1 \<le> (1 + growthFactor level) ^ (T + 1)" by (rule one_le_power)
  then have "0 \<le> S * ((1 + growthFactor level) ^ (T + 1) - 1) / growthFactor level"
    using assms(1) g by simp
  then have "0 \<le> a + S * ((1 + growthFactor level) ^ (T + 1) - 1) / growthFactor level"
    using assms(3) by linarith
  then show ?thesis unfolding amortizedCost_spec_def using g by simp
qed

lemma findOptimalDuration_range:
  "1 \<le> findOptimalDuration h S level \<and> findOptimalDuration h S level \<le> 500"
proof (cases "growthFactor level = 0")
  case True
  then show ?thesis by (simp add: findOptimalDuration_zero_growth)
next
  case False
  then show ?thesis using findOptimalDuration_firstMinimizer[OF False, of S h]
    unfolding firstMinimizer_def by simp
qed

lemma findOptimalDuration_le:
  assumes "1 \<le> k" "k \<le> 500" "growthFactor level \<noteq> 0"
  shows "amortizedCost_spec S (findOptimalDuration h S level) level h \<le> amortizedCost_spec S k level h"
  using findOptimalDuration_firstMinimizer[OF assms(3), of S h] assms(1,2)
  unfolding firstMinimizer_def by simp

lemma optimalCost_eq:
  "optimalCost (calculateOptimalAmortizedCost h S level)
     = amortizedCost_spec S (findOptimalDuration h S level) level h"
  by (simp add: calculateOptimalAmortizedCost_eq)


text \<open>The optimal amortized cost never falls when the hiring cost rises.\<close>

lemma optimalCost_mono:
  assumes "a \<le> a'"
  shows "optimalCost (calculateOptimalAmortizedCost a S level)
           \<le> optimalCost (calculateOptimalAmortizedCost a' S level)"
proof (cases "growthFactor level = 0")
  case True
  then show ?thesis
    using amortizedCost_mono[OF assms] by (simp add: optimalCost_eq findOptimalDuration_zero_growth)
next
  case False
  let ?d = "findOptimalDuration a S level" and ?d' = "findOptimalDuration a' S level"
  have r: "1 \<le> ?d'" "?d' \<le> 500" using findOptimalDuration_range[of a' S level] by simp_all
  have "amortizedCost_spec S ?d level a \<le> amortizedCost_spec S ?d' level a"
    using findOptimalDuration_le[OF r False] .
  also have "\<dots> \<le> amortizedCost_spec S ?d' level a'" using assms by (rule amortizedCost_mono)
  finally show ?thesis by (simp add: optimalCost_eq)
qed

text \<open>It rises by at most the rise of the hiring cost over the optimal duration before.\<close>

lemma optimalCost_rise:
  assumes "a \<le> a'"
  shows "optimalCost (calculateOptimalAmortizedCost a' S level)
           \<le> optimalCost (calculateOptimalAmortizedCost a S level)
               + (a' - a) / real (findOptimalDuration a S level)"
proof (cases "growthFactor level = 0")
  case True
  then show ?thesis
    using amortizedCost_shift[of S 100 level a' a]
    by (simp add: optimalCost_eq findOptimalDuration_zero_growth)
next
  case False
  let ?d = "findOptimalDuration a S level" and ?d' = "findOptimalDuration a' S level"
  have r: "1 \<le> ?d" "?d \<le> 500" using findOptimalDuration_range[of a S level] by simp_all
  have "amortizedCost_spec S ?d' level a' \<le> amortizedCost_spec S ?d level a'"
    using findOptimalDuration_le[OF r False] .
  also have "\<dots> = amortizedCost_spec S ?d level a + (a' - a) / real ?d"
    by (rule amortizedCost_shift)
  finally show ?thesis by (simp add: optimalCost_eq)
qed

lemma optimalCost_lipschitz:
  assumes "a \<le> a'"
  shows "optimalCost (calculateOptimalAmortizedCost a' S level)
           - optimalCost (calculateOptimalAmortizedCost a S level) \<le> a' - a"
proof -
  have d: "1 \<le> real (findOptimalDuration a S level)"
    using findOptimalDuration_range[of a S level] by simp
  have "(a' - a) * 1 \<le> (a' - a) * real (findOptimalDuration a S level)"
    using d assms by (intro mult_left_mono) simp_all
  then have "(a' - a) / real (findOptimalDuration a S level) \<le> a' - a"
    using d by (simp add: divide_le_eq)
  then show ?thesis using optimalCost_rise[OF assms, of S level] by linarith
qed

lemma power_quadratic_lower:
  fixes g :: real
  assumes "0 \<le> g"
  shows "1 + real n * g + real n * (real n - 1) / 2 * g\<^sup>2 \<le> (1 + g) ^ n"
proof (induction n)
  case 0
  then show ?case by simp
next
  case (Suc n)
  have c: "0 \<le> real n * (real n - 1) / 2 * g\<^sup>2 * g"
  proof (cases n)
    case 0
    then show ?thesis by simp
  next
    case (Suc m)
    then have "0 \<le> real n * (real n - 1) / 2" by simp
    then show ?thesis using assms by simp
  qed
  have "(1 + g) * (1 + real n * g + real n * (real n - 1) / 2 * g\<^sup>2)
      = 1 + real (Suc n) * g + real (Suc n) * (real (Suc n) - 1) / 2 * g\<^sup>2
          + real n * (real n - 1) / 2 * g\<^sup>2 * g"
    by (simp add: field_simps power2_eq_square)
  then have "1 + real (Suc n) * g + real (Suc n) * (real (Suc n) - 1) / 2 * g\<^sup>2
      \<le> (1 + g) * (1 + real n * g + real n * (real n - 1) / 2 * g\<^sup>2)"
    using c by linarith
  also have "\<dots> \<le> (1 + g) * (1 + g) ^ n"
    using Suc.IH assms by (intro mult_left_mono) simp_all
  finally show ?case by simp
qed

text \<open>A lower bound of the amortized cost that grows with the duration.\<close>

lemma amortizedCost_lower:
  assumes "0 < growthFactor level" "0 \<le> S" "0 \<le> a" "1 \<le> T"
  shows "S * (1 + real T * growthFactor level / 2) \<le> amortizedCost_spec S T level a"
proof -
  let ?g = "growthFactor level"
  have T: "0 < real T" using assms(4) by simp
  define x where "x = real (T + 1) * ?g + real (T + 1) * (real (T + 1) - 1) / 2 * ?g\<^sup>2"
  have "1 + real (T + 1) * ?g + real (T + 1) * (real (T + 1) - 1) / 2 * ?g\<^sup>2 \<le> (1 + ?g) ^ (T + 1)"
    using assms(1) by (intro power_quadratic_lower) simp
  then have "x \<le> (1 + ?g) ^ (T + 1) - 1"
    unfolding x_def by linarith
  moreover have "x = ((real T + 1) + (real T + 1) * real T / 2 * ?g) * ?g"
    unfolding x_def by (simp add: field_simps power2_eq_square)
  ultimately have "(real T + 1) + (real T + 1) * real T / 2 * ?g \<le> ((1 + ?g) ^ (T + 1) - 1) / ?g"
    using assms(1) by (simp add: pos_le_divide_eq)
  moreover have "real T * (1 + real T * ?g / 2) \<le> (real T + 1) + (real T + 1) * real T / 2 * ?g"
  proof -
    have "0 \<le> 1 + real T / 2 * ?g" using assms(1) T by simp
    moreover have "(real T + 1) + (real T + 1) * real T / 2 * ?g
        = real T * (1 + real T * ?g / 2) + (1 + real T / 2 * ?g)"
      by (simp add: field_simps)
    ultimately show ?thesis by linarith
  qed
  ultimately have "real T * (1 + real T * ?g / 2) \<le> ((1 + ?g) ^ (T + 1) - 1) / ?g" by linarith
  then have "S * (real T * (1 + real T * ?g / 2)) \<le> S * (((1 + ?g) ^ (T + 1) - 1) / ?g)"
    using assms(2) by (rule mult_left_mono)
  then have "S * (1 + real T * ?g / 2) * real T \<le> a + S * ((1 + ?g) ^ (T + 1) - 1) / ?g"
    using assms(3) by (simp add: algebra_simps)
  then have "S * (1 + real T * ?g / 2) \<le> (a + S * ((1 + ?g) ^ (T + 1) - 1) / ?g) / real T"
    using T by (simp add: pos_le_divide_eq)
  then show ?thesis unfolding amortizedCost_spec_def using assms(1) by simp
qed

lemma amortizedCost_lower_hire:
  assumes "0 < growthFactor level" "0 \<le> S" "1 \<le> T"
  shows "a / real T + S \<le> amortizedCost_spec S T level a"
proof -
  have "S * (1 + real T * growthFactor level / 2) \<le> amortizedCost_spec S T level 0"
    using assms by (intro amortizedCost_lower) simp_all
  moreover have "S * 1 \<le> S * (1 + real T * growthFactor level / 2)"
    using assms by (intro mult_left_mono) simp_all
  moreover have "amortizedCost_spec S T level a = amortizedCost_spec S T level 0 + (a - 0) / real T"
    by (rule amortizedCost_shift)
  ultimately show ?thesis by simp
qed

lemma optimalCost_rise_lower:
  assumes "a \<le> a'"
  shows "optimalCost (calculateOptimalAmortizedCost a S level) + (a' - a) / 500
           \<le> optimalCost (calculateOptimalAmortizedCost a' S level)"
proof -
  let ?d' = "findOptimalDuration a' S level"
  have r: "1 \<le> ?d'" "?d' \<le> 500" using findOptimalDuration_range[of a' S level] by simp_all
  have le: "optimalCost (calculateOptimalAmortizedCost a S level) \<le> amortizedCost_spec S ?d' level a"
  proof (cases "growthFactor level = 0")
    case True
    then show ?thesis by (simp add: optimalCost_eq findOptimalDuration_zero_growth)
  next
    case False
    show ?thesis unfolding optimalCost_eq using r False by (rule findOptimalDuration_le)
  qed
  have "(a' - a) / 500 \<le> (a' - a) / real ?d'"
    using r assms by (intro divide_left_mono) simp_all
  moreover have "amortizedCost_spec S ?d' level a' = amortizedCost_spec S ?d' level a + (a' - a) / real ?d'"
    by (rule amortizedCost_shift)
  ultimately show ?thesis unfolding optimalCost_eq[of a'] using le by linarith
qed

lemma optimalCost_close_imp_near:
  assumes "\<bar>optimalCost (calculateOptimalAmortizedCost x S level)
            - optimalCost (calculateOptimalAmortizedCost c S level)\<bar> < 1"
  shows "\<bar>x - c\<bar> < 500"
proof (cases "c \<le> x")
  case True
  have "(x - c) / 500 < 1" using optimalCost_rise_lower[OF True, of S level] assms by linarith
  then have "x - c < 500" by simp
  with True show ?thesis by simp
next
  case False
  then have "x \<le> c" by simp
  have "(c - x) / 500 < 1"
    using optimalCost_rise_lower[OF \<open>x \<le> c\<close>, of S level] assms by linarith
  then have "c - x < 500" by simp
  with \<open>x \<le> c\<close> show ?thesis by simp
qed



section \<open>The bisection\<close>

text \<open>
  The invariant: the target lies between the optimal costs at the two ends of the
  bracket, and the bracket has been halved \<open>iter\<close> times. The optimal cost of a midpoint
  that is not close enough differs by 1 or more from that of one end, so half the bracket
  is 1 or more wide: the loop leaves through \<open>break\<close> before \<open>iter\<close> reaches 20.
\<close>

lemma halving_bound:
  assumes "(1::real) < 999000 / 2 ^ n"
  shows "n < 20"
proof (rule ccontr)
  assume "\<not> n < 20"
  then have "20 \<le> n" by simp
  then have "(2::real) ^ 20 \<le> 2 ^ n" by (intro power_increasing) simp_all
  then have "(1048576::real) \<le> 2 ^ n" by simp
  moreover have "(2::real) ^ n < 999000" using assms by (simp add: pos_less_divide_eq)
  ultimately show False by simp
qed

lemma halving_bound_le:
  assumes "(1::real) \<le> 999000 / 2 ^ n"
  shows "n < 20"
proof (rule ccontr)
  assume "\<not> n < 20"
  then have "20 \<le> n" by simp
  then have "(2::real) ^ 20 \<le> 2 ^ n" by (intro power_increasing) simp_all
  then have "(1048576::real) \<le> 2 ^ n" by simp
  moreover have "(2::real) ^ n \<le> 999000" using assms by (simp add: pos_le_divide_eq)
  ultimately show False by simp
qed

lemma bisectionLoop_bracket:
  assumes "optimalCost (calculateOptimalAmortizedCost low S level) \<le> targetCost"
    "targetCost \<le> optimalCost (calculateOptimalAmortizedCost high S level)"
    "low < high" "high - low = 999000 / 2 ^ iter" "iter \<le> 20"
  shows "\<exists>x. bisectionLoop targetCost S level iter low high bestH bestD
              = \<lparr>bestHiringCost = x, bestDuration = duration (calculateOptimalAmortizedCost x S level)\<rparr>
           \<and> \<bar>optimalCost (calculateOptimalAmortizedCost x S level) - targetCost\<bar> < 1
           \<and> low < x \<and> x < high"
  using assms
proof (induction targetCost S level iter low high bestH bestD rule: bisectionLoop.induct)
  case (1 targetCost S level iter low high bestH bestD)
  let ?F = "\<lambda>x. optimalCost (calculateOptimalAmortizedCost x S level)"
  let ?mid = "(low + high) / 2"
  have it: "iter < 50" using "1.prems"(5) by simp
  have lh: "low < high" using "1.prems"(3) .
  have mid: "low < ?mid" "?mid < high" using lh by simp_all
  have half: "high - ?mid = 999000 / 2 ^ Suc iter" "?mid - low = 999000 / 2 ^ Suc iter"
    using "1.prems"(4) by (simp_all add: field_simps)
  show ?case
  proof (cases "\<bar>?F ?mid - targetCost\<bar> < 1")
    case True
    then have "bisectionLoop targetCost S level iter low high bestH bestD
        = \<lparr>bestHiringCost = ?mid, bestDuration = duration (calculateOptimalAmortizedCost ?mid S level)\<rparr>"
      using it by (simp add: bisectionLoop.simps[of targetCost S level iter] Let_def)
    with True mid show ?thesis by blast
  next
    case far: False
    show ?thesis
    proof (cases "?F ?mid > targetCost")
      case True
      have "?F ?mid - ?F low \<le> ?mid - low" using mid(1) by (intro optimalCost_lipschitz) simp
      moreover have "1 \<le> ?F ?mid - ?F low" using far True "1.prems"(1) by linarith
      ultimately have "1 \<le> ?mid - low" by linarith
      then have "1 \<le> 999000 / (2::real) ^ Suc iter" by (simp only: half(2))
      then have "Suc iter < 20" by (rule halving_bound_le)
      then have n: "Suc iter \<le> 20" by simp
      have up: "targetCost \<le> ?F ?mid" using True by simp
      have "\<exists>x. bisectionLoop targetCost S level (Suc iter) low ?mid ?mid
                    (duration (calculateOptimalAmortizedCost ?mid S level))
              = \<lparr>bestHiringCost = x, bestDuration = duration (calculateOptimalAmortizedCost x S level)\<rparr>
           \<and> \<bar>?F x - targetCost\<bar> < 1 \<and> low < x \<and> x < ?mid"
        using "1.IH"(1)[OF it refl refl far True "1.prems"(1) up mid(1) half(2) n] .
      moreover have "bisectionLoop targetCost S level iter low high bestH bestD
          = bisectionLoop targetCost S level (Suc iter) low ?mid ?mid
                    (duration (calculateOptimalAmortizedCost ?mid S level))"
        using it far True by (simp add: bisectionLoop.simps[of targetCost S level iter] Let_def)
      ultimately show ?thesis using mid(2) by force
    next
      case False
      have "?F high - ?F ?mid \<le> high - ?mid" using mid(2) by (intro optimalCost_lipschitz) simp
      moreover have "1 \<le> ?F high - ?F ?mid" using far False "1.prems"(2) by linarith
      ultimately have "1 \<le> high - ?mid" by linarith
      then have "1 \<le> 999000 / (2::real) ^ Suc iter" by (simp only: half(1))
      then have "Suc iter < 20" by (rule halving_bound_le)
      then have n: "Suc iter \<le> 20" by simp
      have dn: "?F ?mid \<le> targetCost" using False by simp
      have "\<exists>x. bisectionLoop targetCost S level (Suc iter) ?mid high ?mid
                    (duration (calculateOptimalAmortizedCost ?mid S level))
              = \<lparr>bestHiringCost = x, bestDuration = duration (calculateOptimalAmortizedCost x S level)\<rparr>
           \<and> \<bar>?F x - targetCost\<bar> < 1 \<and> ?mid < x \<and> x < high"
        using "1.IH"(2)[OF it refl refl far False dn "1.prems"(2) mid(2) half(1) n] .
      moreover have "bisectionLoop targetCost S level iter low high bestH bestD
          = bisectionLoop targetCost S level (Suc iter) ?mid high ?mid
                    (duration (calculateOptimalAmortizedCost ?mid S level))"
        using it far False by (simp add: bisectionLoop.simps[of targetCost S level iter] Let_def)
      ultimately show ?thesis using mid(1) by force
    qed
  qed
qed

text \<open>
  A target between the optimal costs at the two ends of the bracket is met within 1.
\<close>

lemma findHiringCostForTarget_reachable:
  assumes "optimalCost (calculateOptimalAmortizedCost 1000 S level) \<le> targetCost"
    "targetCost \<le> optimalCost (calculateOptimalAmortizedCost 1000000 S level)"
  shows "\<exists>x. findHiringCostForTarget targetCost S level
              = \<lparr>bestHiringCost = x, bestDuration = duration (calculateOptimalAmortizedCost x S level)\<rparr>
           \<and> \<bar>optimalCost (calculateOptimalAmortizedCost x S level) - targetCost\<bar> < 1
           \<and> 1000 < x \<and> x < 1000000"
proof -
  have w: "(1000000::real) - 1000 = 999000 / 2 ^ 0" by simp
  show ?thesis
    unfolding findHiringCostForTarget_def
    using bisectionLoop_bracket[OF assms _ w, of 1000 1] by simp
qed


section \<open>The script's optimum and bisection\<close>

text \<open>The script's optimum, for a growth factor that is not zero.\<close>

lemma cli_optimum:
  assumes "growthFactor level \<noteq> 0"
  shows "\<exists>w. calculateOptimalAmortizedCost_cli h S level =
              \<lparr>optimalCost = Finite (Min ((\<lambda>T. amortizedCost_spec S T level h) ` {1..150})), duration = w\<rparr>
           \<and> firstMinimizer (\<lambda>T. amortizedCost_spec S T level h) 150 w"
  using calculateOptimalAmortizedCost_cli_firstMinimizer[OF assms, of h S]
    firstMinimizer_Min[of "\<lambda>T. amortizedCost_spec S T level h" 150] by auto

lemma cli_optimalCost:
  assumes "growthFactor level \<noteq> 0"
  shows "optimalCost (calculateOptimalAmortizedCost_cli h S level)
           = Finite (Min ((\<lambda>T. amortizedCost_spec S T level h) ` {1..150}))"
proof -
  obtain w where "calculateOptimalAmortizedCost_cli h S level =
      \<lparr>optimalCost = Finite (Min ((\<lambda>T. amortizedCost_spec S T level h) ` {1..150})), duration = w\<rparr>"
    using cli_optimum[OF assms, of h S] by blast
  then show ?thesis by simp
qed

lemma Min_cost_mono:
  assumes "a \<le> a'" "1 \<le> D"
  shows "Min ((\<lambda>T. amortizedCost_spec S T level a) ` {1..D})
           \<le> Min ((\<lambda>T. amortizedCost_spec S T level a') ` {1..D})"
proof -
  have ne: "(\<lambda>T. amortizedCost_spec S T level a') ` {1..D} \<noteq> {}" using assms(2) by simp
  have "\<And>T. T \<in> {1..D} \<Longrightarrow>
      Min ((\<lambda>T. amortizedCost_spec S T level a) ` {1..D}) \<le> amortizedCost_spec S T level a'"
  proof -
    fix T assume T: "T \<in> {1..D}"
    have "Min ((\<lambda>T. amortizedCost_spec S T level a) ` {1..D}) \<le> amortizedCost_spec S T level a"
      using T by (intro Min_le) simp_all
    also have "\<dots> \<le> amortizedCost_spec S T level a'" using assms(1) by (rule amortizedCost_mono)
    finally show "Min ((\<lambda>T. amortizedCost_spec S T level a) ` {1..D}) \<le> amortizedCost_spec S T level a'" .
  qed
  then show ?thesis using ne by (simp add: Min_ge_iff)
qed

lemma Min_cost_lipschitz:
  assumes "a \<le> a'" "1 \<le> D"
  shows "Min ((\<lambda>T. amortizedCost_spec S T level a') ` {1..D})
           \<le> Min ((\<lambda>T. amortizedCost_spec S T level a) ` {1..D}) + (a' - a)"
proof -
  let ?A = "(\<lambda>T. amortizedCost_spec S T level a) ` {1..D}"
  have fin: "finite ?A" and ne: "?A \<noteq> {}" using assms(2) by simp_all
  have "Min ?A \<in> ?A" using fin ne by (rule Min_in)
  then obtain T where T: "T \<in> {1..D}" "Min ?A = amortizedCost_spec S T level a" by auto
  have "Min ((\<lambda>T. amortizedCost_spec S T level a') ` {1..D}) \<le> amortizedCost_spec S T level a'"
    using T(1) by (intro Min_le) simp_all
  also have "\<dots> = amortizedCost_spec S T level a + (a' - a) / real T" by (rule amortizedCost_shift)
  also have "\<dots> \<le> amortizedCost_spec S T level a + (a' - a)"
  proof -
    have t: "1 \<le> real T" using T(1) by simp
    have "(a' - a) * 1 \<le> (a' - a) * real T" using t assms(1) by (intro mult_left_mono) simp_all
    then have "(a' - a) / real T \<le> a' - a" using t by (simp add: divide_le_eq)
    then show ?thesis by simp
  qed
  finally show ?thesis using T(2) by simp
qed

lemma Min_cost_rise_lower:
  assumes "a \<le> a'" "1 \<le> D"
  shows "Min ((\<lambda>T. amortizedCost_spec S T level a) ` {1..D}) + (a' - a) / real D
           \<le> Min ((\<lambda>T. amortizedCost_spec S T level a') ` {1..D})"
proof -
  let ?A' = "(\<lambda>T. amortizedCost_spec S T level a') ` {1..D}"
  have fin: "finite ?A'" and ne: "?A' \<noteq> {}" using assms(2) by simp_all
  have "Min ?A' \<in> ?A'" using fin ne by (rule Min_in)
  then obtain T where T: "T \<in> {1..D}" "Min ?A' = amortizedCost_spec S T level a'" by auto
  have "Min ((\<lambda>T. amortizedCost_spec S T level a) ` {1..D}) \<le> amortizedCost_spec S T level a"
    using T(1) by (intro Min_le) simp_all
  moreover have "amortizedCost_spec S T level a' = amortizedCost_spec S T level a + (a' - a) / real T"
    by (rule amortizedCost_shift)
  moreover have "(a' - a) / real D \<le> (a' - a) / real T"
    using T(1) assms by (intro divide_left_mono) simp_all
  ultimately show ?thesis using T(2) by linarith
qed

lemma Min_cost_close_imp_near:
  assumes "\<bar>Min ((\<lambda>T. amortizedCost_spec S T level x) ` {1..150})
            - Min ((\<lambda>T. amortizedCost_spec S T level c) ` {1..150})\<bar> < 1"
  shows "\<bar>x - c\<bar> < 150"
proof (cases "c \<le> x")
  case True
  have "Min ((\<lambda>T. amortizedCost_spec S T level c) ` {1..150}) + (x - c) / 150
           \<le> Min ((\<lambda>T. amortizedCost_spec S T level x) ` {1..150})"
    using Min_cost_rise_lower[OF True, of 150 S level] by (simp only: of_nat_numeral)
  then have "(x - c) / 150 < 1" using assms by linarith
  then have "x - c < 150" by simp
  with True show ?thesis by simp
next
  case False
  then have le: "x \<le> c" by simp
  have "Min ((\<lambda>T. amortizedCost_spec S T level x) ` {1..150}) + (c - x) / 150
           \<le> Min ((\<lambda>T. amortizedCost_spec S T level c) ` {1..150})"
    using Min_cost_rise_lower[OF le, of 150 S level] by (simp only: of_nat_numeral)
  then have "(c - x) / 150 < 1" using assms by linarith
  then have "c - x < 150" by simp
  with le show ?thesis by simp
qed

lemma bisectionLoop_cli_close:
  assumes "growthFactor level \<noteq> 0"
    "targetCost = Min ((\<lambda>T. amortizedCost_spec S T level c) ` {1..150})"
    "low < c" "c < high" "high - low = 999000 / 2 ^ iter" and "iter \<le> 20"
  shows "\<exists>x. bisectionLoop_cli targetCost S level iter low high bestH bestD
              = \<lparr>bestHiringCost = x,
                 bestDuration = duration (calculateOptimalAmortizedCost_cli x S level)\<rparr>
           \<and> \<bar>Min ((\<lambda>T. amortizedCost_spec S T level x) ` {1..150}) - targetCost\<bar> < 1
           \<and> low < x \<and> x < high"
  using assms
proof (induction targetCost S level iter low high bestH bestD rule: bisectionLoop_cli.induct)
  case (1 targetCost S level iter low high bestH bestD)
  let ?F = "\<lambda>x. Min ((\<lambda>T. amortizedCost_spec S T level x) ` {1..150})"
  let ?mid = "(low + high) / 2"
  note nz = "1.prems"(1)
  have res: "\<And>x. optimalCost (calculateOptimalAmortizedCost_cli x S level) = Finite (?F x)"
    using nz by (rule cli_optimalCost)
  have it: "iter < 50" using "1.prems"(6) by simp
  have lh: "low < high" using "1.prems"(3,4) by simp
  have mid: "low < ?mid" "?mid < high" using lh by simp_all
  have half: "high - ?mid = 999000 / 2 ^ Suc iter" "?mid - low = 999000 / 2 ^ Suc iter"
    using "1.prems"(5) by (simp_all add: field_simps)
  show ?case
  proof (cases "\<bar>?F ?mid - targetCost\<bar> < 1")
    case True
    then have "bisectionLoop_cli targetCost S level iter low high bestH bestD
        = \<lparr>bestHiringCost = ?mid,
           bestDuration = duration (calculateOptimalAmortizedCost_cli ?mid S level)\<rparr>"
      using it by (simp add: bisectionLoop_cli.simps[of targetCost S level iter] Let_def res)
    with True mid show ?thesis by blast
  next
    case far: False
    then have far': "\<not> closeTo (optimalCost (calculateOptimalAmortizedCost_cli ?mid S level)) targetCost"
      by (simp add: res)
    show ?thesis
    proof (cases "?F ?mid > targetCost")
      case True
      then have gt: "greater_number (optimalCost (calculateOptimalAmortizedCost_cli ?mid S level)) targetCost"
        by (simp add: res)
      have cm: "c < ?mid"
      proof (rule ccontr)
        assume "\<not> c < ?mid"
        then have "?F ?mid \<le> ?F c" by (intro Min_cost_mono) simp_all
        with True "1.prems"(2) show False by linarith
      qed
      have "?F ?mid \<le> ?F c + (?mid - c)" using cm by (intro Min_cost_lipschitz) simp_all
      moreover have "1 \<le> ?F ?mid - ?F c" using far True "1.prems"(2) by linarith
      ultimately have "1 \<le> ?mid - c" by linarith
      then have "1 < ?mid - low" using "1.prems"(3) by linarith
      then have "1 < 999000 / (2::real) ^ Suc iter" by (simp only: half(2))
      then have "Suc iter < 20" by (rule halving_bound)
      then have n: "Suc iter \<le> 20" by simp
      have "\<exists>x. bisectionLoop_cli targetCost S level (Suc iter) low ?mid ?mid
                    (duration (calculateOptimalAmortizedCost_cli ?mid S level))
              = \<lparr>bestHiringCost = x,
                 bestDuration = duration (calculateOptimalAmortizedCost_cli x S level)\<rparr>
           \<and> \<bar>?F x - targetCost\<bar> < 1 \<and> low < x \<and> x < ?mid"
        using "1.IH"(1)[OF it refl refl far' gt nz "1.prems"(2,3) cm half(2) n] .
      moreover have "bisectionLoop_cli targetCost S level iter low high bestH bestD
          = bisectionLoop_cli targetCost S level (Suc iter) low ?mid ?mid
                    (duration (calculateOptimalAmortizedCost_cli ?mid S level))"
        using it far' gt by (simp add: bisectionLoop_cli.simps[of targetCost S level iter] Let_def)
      ultimately show ?thesis using mid(2) by force
    next
      case False
      then have ngt: "\<not> greater_number (optimalCost (calculateOptimalAmortizedCost_cli ?mid S level)) targetCost"
        by (simp add: res)
      have mc: "?mid < c"
      proof (rule ccontr)
        assume "\<not> ?mid < c"
        then have "?F c \<le> ?F ?mid" by (intro Min_cost_mono) simp_all
        with False far "1.prems"(2) show False by linarith
      qed
      have "?F c \<le> ?F ?mid + (c - ?mid)" using mc by (intro Min_cost_lipschitz) simp_all
      moreover have "1 \<le> ?F c - ?F ?mid" using far False "1.prems"(2) by linarith
      ultimately have "1 \<le> c - ?mid" by linarith
      then have "1 < high - ?mid" using "1.prems"(4) by linarith
      then have "1 < 999000 / (2::real) ^ Suc iter" by (simp only: half(1))
      then have "Suc iter < 20" by (rule halving_bound)
      then have n: "Suc iter \<le> 20" by simp
      have "\<exists>x. bisectionLoop_cli targetCost S level (Suc iter) ?mid high ?mid
                    (duration (calculateOptimalAmortizedCost_cli ?mid S level))
              = \<lparr>bestHiringCost = x,
                 bestDuration = duration (calculateOptimalAmortizedCost_cli x S level)\<rparr>
           \<and> \<bar>?F x - targetCost\<bar> < 1 \<and> ?mid < x \<and> x < high"
        using "1.IH"(2)[OF it refl refl far' ngt nz "1.prems"(2) mc "1.prems"(4) half(1) n] .
      moreover have "bisectionLoop_cli targetCost S level iter low high bestH bestD
          = bisectionLoop_cli targetCost S level (Suc iter) ?mid high ?mid
                    (duration (calculateOptimalAmortizedCost_cli ?mid S level))"
        using it far' ngt by (simp add: bisectionLoop_cli.simps[of targetCost S level iter] Let_def)
      ultimately show ?thesis using mid(1) by force
    qed
  qed
qed

lemma cli_roundtrip:
  assumes "1000 < c" "c < 1000000" "optimalCost (calculateOptimalAmortizedCost_cli c S level) = Finite t"
  shows "\<exists>x m. bestHiringCost (findHiringCostForTarget_cli t S level) = x
           \<and> optimalCost (calculateOptimalAmortizedCost_cli x S level) = Finite m
           \<and> \<bar>m - t\<bar> < 1
           \<and> bestDuration (findHiringCostForTarget_cli t S level)
               = duration (calculateOptimalAmortizedCost_cli x S level)
           \<and> 1000 < x \<and> x < 1000000 \<and> \<bar>x - c\<bar> < 150"
proof -
  let ?F = "\<lambda>x. Min ((\<lambda>T. amortizedCost_spec S T level x) ` {1..150})"
  have nz: "growthFactor level \<noteq> 0"
  proof
    assume "growthFactor level = 0"
    then have "optimalCost (calculateOptimalAmortizedCost_cli c S level) = Infinity"
      unfolding calculateOptimalAmortizedCost_cli_def by simp
    with assms(3) show False by simp
  qed
  have t: "t = ?F c" using cli_optimalCost[OF nz, of c S] assms(3) by simp
  have w: "(1000000::real) - 1000 = 999000 / 2 ^ 0" by simp
  obtain x where x: "findHiringCostForTarget_cli t S level
      = \<lparr>bestHiringCost = x, bestDuration = duration (calculateOptimalAmortizedCost_cli x S level)\<rparr>"
    "\<bar>?F x - t\<bar> < 1" "1000 < x" "x < 1000000"
    unfolding findHiringCostForTarget_cli_def
    using bisectionLoop_cli_close[OF nz t assms(1,2) w, of 1000 1] by auto
  have "\<bar>x - c\<bar> < 150" using x(2) unfolding t by (rule Min_cost_close_imp_near)
  moreover have "optimalCost (calculateOptimalAmortizedCost_cli x S level) = Finite (?F x)"
    using nz by (rule cli_optimalCost)
  ultimately show ?thesis using x by simp
qed

section \<open>Concrete inputs\<close>

lemma roundtrip_duration_ge_31: "31 \<le> findOptimalDuration 500470 7000 4"
proof (rule ccontr)
  let ?d = "findOptimalDuration 500470 7000 4"
  assume "\<not> 31 \<le> ?d"
  then have small: "?d \<le> 30" by simp
  have one: "1 \<le> ?d" using findOptimalDuration_range[of 500470 7000 4] by simp
  have g: "growthFactor 4 = 0.0175" unfolding growthFactor_def by simp
  then have gpos: "0 < growthFactor 4" and nz: "growthFactor 4 \<noteq> 0" by simp_all
  have "500470 / real ?d + 7000 \<le> amortizedCost_spec 7000 ?d 4 500470"
    using one by (intro amortizedCost_lower_hire gpos) simp_all
  moreover have "(500470::real) / 30 \<le> 500470 / real ?d"
    using small one by (intro divide_left_mono) simp_all
  ultimately have lower: "500470 / 30 + 7000 \<le> amortizedCost_spec 7000 ?d 4 500470" by linarith
  have "amortizedCost_spec 7000 ?d 4 500470 \<le> amortizedCost_spec 7000 60 4 500470"
    using nz by (intro findOptimalDuration_le) simp_all
  moreover have "amortizedCost_spec 7000 60 4 500470 < 500470 / 30 + 7000"
    unfolding amortizedCost_spec_def g by (simp add: power_divide)
  ultimately show False using lower by simp
qed















section \<open>The interpolator on points of pairwise different salaries\<close>

lemma find_exact:
  assumes "distinct (map salary xs)" "p \<in> set xs"
  shows "List.find (\<lambda>q. salary q = salary p) xs = Some p"
  using assms
proof (induction xs)
  case Nil
  then show ?case by simp
next
  case (Cons a rest)
  show ?case
  proof (cases "salary a = salary p")
    case True
    have "a = p"
    proof (rule ccontr)
      assume "a \<noteq> p"
      then have "p \<in> set rest" using Cons.prems(2) by simp
      then have "salary a \<in> salary ` set rest" using True by force
      then show False using Cons.prems(1) by simp
    qed
    then show ?thesis by simp
  next
    case False
    then have "p \<in> set rest" using Cons.prems(2) by auto
    then show ?thesis using Cons.IH Cons.prems(1) False by simp
  qed
qed

lemma interpolateBetween_adjacent:
  assumes "sorted (map salary xs)" "distinct (map salary xs)" "p1 \<in> set xs" "p2 \<in> set xs"
    "salary p1 < s" "s < salary p2"
    "\<forall>q \<in> set xs. \<not> (salary p1 < salary q \<and> salary q < salary p2)"
  shows "interpolateBetween s xs
           = Some (cost p1 + (s - salary p1) / (salary p2 - salary p1) * (cost p2 - cost p1))"
  using assms
proof (induction s xs rule: interpolateBetween.induct)
  case (1 s a b ps)
  have inj: "inj_on salary (set (a # b # ps))"
    using "1.prems"(2) by (simp only: distinct_map)
  have ab: "salary a < salary b" using "1.prems"(1,2) by auto
  have amin: "\<forall>q \<in> set (a # b # ps). salary a \<le> salary q" using "1.prems"(1) by auto
  have bmin: "\<forall>q \<in> set (b # ps). salary b \<le> salary q" using "1.prems"(1) by auto
  show ?case
  proof (cases "salary a \<le> s \<and> s \<le> salary b")
    case True
    have a: "a = p1"
    proof (rule ccontr)
      assume "a \<noteq> p1"
      then have "p1 \<in> set (b # ps)" using "1.prems"(3) by auto
      then have "salary b \<le> salary p1" using bmin by blast
      then show False using True "1.prems"(5) by simp
    qed
    have "p2 \<noteq> a" using True "1.prems"(6) by auto
    then have p2: "p2 \<in> set (b # ps)" using "1.prems"(4) by auto
    then have "salary b \<le> salary p2" using bmin by blast
    moreover have "\<not> (salary p1 < salary b \<and> salary b < salary p2)"
      using "1.prems"(7) by simp
    ultimately have "salary b = salary p2" using ab a by auto
    then have b: "b = p2" using inj p2 by (auto dest: inj_onD)
    show ?thesis using True a b by (simp add: Let_def)
  next
    case False
    have "p2 \<noteq> a"
    proof
      assume "p2 = a"
      then have "salary p2 \<le> salary p1" using amin "1.prems"(3) by blast
      then show False using "1.prems"(5,6) by simp
    qed
    then have p2: "p2 \<in> set (b # ps)" using "1.prems"(4) by auto
    have "p1 \<noteq> a"
    proof
      assume e: "p1 = a"
      then have "salary b < s" using False "1.prems"(5) by auto
      then have "salary p1 < salary b \<and> salary b < salary p2"
        using ab e "1.prems"(6) by simp
      then show False using "1.prems"(7) by simp
    qed
    then have p1: "p1 \<in> set (b # ps)" using "1.prems"(3) by auto
    have "interpolateBetween s (b # ps)
           = Some (cost p1 + (s - salary p1) / (salary p2 - salary p1) * (cost p2 - cost p1))"
      using "1.IH"[OF False _ _ p1 p2 "1.prems"(5,6)] "1.prems"(1,2,7) by simp
    then show ?thesis using False by auto
  qed
qed auto

lemma sorted_points_facts:
  assumes "distinct (map salary pts)"
  shows "set (sort_key salary pts) = set pts" "sorted (map salary (sort_key salary pts))"
    "distinct (map salary (sort_key salary pts))" "length (sort_key salary pts) = length pts"
proof -
  show "set (sort_key salary pts) = set pts" by simp
  show "sorted (map salary (sort_key salary pts))" by simp
  show "length (sort_key salary pts) = length pts" by simp
  have "distinct pts" "inj_on salary (set pts)" using assms by (simp_all add: distinct_map)
  then show "distinct (map salary (sort_key salary pts))" by (simp add: distinct_map)
qed

lemma sorted_first_least:
  assumes "sorted (map salary xs)" "q \<in> set xs"
  shows "salary (xs ! 0) \<le> salary q"
proof -
  obtain i where i: "i < length xs" "xs ! i = q" using assms(2) by (auto simp: in_set_conv_nth)
  have "map salary xs ! 0 \<le> map salary xs ! i"
    using assms(1) i(1) by (intro sorted_nth_mono) simp_all
  moreover have "0 < length xs" using i(1) by (cases xs) simp_all
  ultimately show ?thesis using i by simp
qed

lemma sorted_last_greatest:
  assumes "sorted (map salary xs)" "q \<in> set xs"
  shows "salary q \<le> salary (xs ! (length xs - 1))"
proof -
  obtain i where i: "i < length xs" "xs ! i = q" using assms(2) by (auto simp: in_set_conv_nth)
  have "map salary xs ! i \<le> map salary xs ! (length xs - 1)"
    using assms(1) i(1) by (intro sorted_nth_mono) simp_all
  then show ?thesis using i by simp
qed

lemma interpolate_exact:
  assumes "distinct (map salary pts)" "p \<in> set pts"
  shows "interpolateHiringCost (salary p) pts = Some (cost p)"
proof (cases "length pts = 1")
  case True
  then obtain q where "pts = [q]" by (cases pts) auto
  then show ?thesis using assms(2) by (simp add: interpolateHiringCost_def)
next
  case False
  have ne: "length pts \<noteq> 0" using assms(2) by auto
  have "List.find (\<lambda>q. salary q = salary p) (sort_key salary pts) = Some p"
    using sorted_points_facts(1,3)[OF assms(1)] assms(2) by (intro find_exact) simp_all
  then show ?thesis using False ne by (simp add: interpolateHiringCost_def Let_def)
qed

lemma interpolate_midpoint:
  assumes "distinct (map salary pts)" "p1 \<in> set pts" "p2 \<in> set pts" "salary p1 < salary p2"
    "\<forall>q \<in> set pts. \<not> (salary p1 < salary q \<and> salary q < salary p2)"
  shows "interpolateHiringCost ((salary p1 + salary p2) / 2) pts = Some ((cost p1 + cost p2) / 2)"
proof -
  let ?s = "(salary p1 + salary p2) / 2"
  let ?sp = "sort_key salary pts"
  note sp = sorted_points_facts[OF assms(1)]
  have s: "salary p1 < ?s" "?s < salary p2" using assms(4) by simp_all
  have len: "length pts \<noteq> 0" "length pts \<noteq> 1"
  proof -
    show "length pts \<noteq> 0" using assms(2) by auto
    show "length pts \<noteq> 1"
    proof
      assume "length pts = 1"
      then obtain q where "pts = [q]" by (cases pts) auto
      then have "p1 = p2" using assms(2,3) by simp
      then show False using assms(4) by simp
    qed
  qed
  have nofind: "List.find (\<lambda>q. salary q = ?s) ?sp = None"
  proof -
    have "\<not> (\<exists>q. q \<in> set ?sp \<and> salary q = ?s)"
      using assms(5) s sp(1) by auto
    then show ?thesis by (simp add: find_None_iff)
  qed
  have "salary (?sp ! 0) \<le> salary p1"
    using sp(1,2) assms(2) by (intro sorted_first_least) simp_all
  then have nobelow: "\<not> ?s < salary (?sp ! 0)" using s(1) by simp
  have "salary p2 \<le> salary (?sp ! (length ?sp - 1))"
    using sp(1,2) assms(3) by (intro sorted_last_greatest) simp_all
  then have noabove: "\<not> ?s > salary (?sp ! (length ?sp - 1))" using s(2) by simp
  have between: "interpolateBetween ?s ?sp
      = Some (cost p1 + (?s - salary p1) / (salary p2 - salary p1) * (cost p2 - cost p1))"
    using sp(1,2,3) assms(2,3,5) s by (intro interpolateBetween_adjacent) simp_all
  have "?s - salary p1 = (salary p2 - salary p1) / 2" by (simp add: field_simps)
  then have ratio: "(?s - salary p1) / (salary p2 - salary p1) = 1 / 2"
    using assms(4) by simp
  have "cost p1 + 1 / 2 * (cost p2 - cost p1) = (cost p1 + cost p2) / 2"
    by (simp add: field_simps)
  then have "interpolateBetween ?s ?sp = Some ((cost p1 + cost p2) / 2)"
    using between by (simp only: ratio)
  then show ?thesis
    unfolding interpolateHiringCost_def Let_def
    using len nofind nobelow noabove by simp
qed

lemma initial_level5: "parameters (generateHiringFormula INITIAL_HIRING_DATA) 5 = None"
  unfolding generateHiringFormula_def INITIAL_HIRING_DATA_def by simp

text \<open>\<open>hiringCost\<close> floors what the interpolator returns.\<close>

lemma hiringCost_interpolated:
  assumes "parameters f level = Some ps" "points ps \<noteq> []"
    "interpolateHiringCost s (points ps) = Some v"
  shows "hiringCost s level f = max 1000 v"
  using assms unfolding hiringCost_def by simp

section \<open>The callers of the inversion\<close>








section \<open>Claims\<close>

text \<open>
  Claim C1, as the code has it. The Duration Optimizer returns the minimal amortized cost
  over the integer durations of its range and the smallest duration that attains it:
  \<open>findAmortizedCostMinimum\<close> the minimum of \<open>calculateAmortizedCost\<close> over \<open>[1, 500]\<close>,
  \<open>calculateOptimalAmortizedCost\<close> the minimum of the Cost Model over \<open>[1, 500]\<close> in the
  chart and over \<open>[1, 150]\<close> in the script, at the hiring cost it is given. This holds for
  every salary and hiring cost and for every level whose growth factor is not zero (every
  level but \<open>-3\<close>, so every level \<open>\<ge> 1\<close>).
\<close>

theorem duration_optimizer_first_minimum:
  assumes "growthFactor level \<noteq> 0"
  shows "(\<exists>r. findAmortizedCostMinimum S level f = Some r
            \<and> minimalCost r = Min ((\<lambda>T. calculateAmortizedCost S T level f) ` {1..500})
            \<and> week r \<in> {1..500}
            \<and> calculateAmortizedCost S (week r) level f = minimalCost r
            \<and> (\<forall>T\<in>{1..500}. calculateAmortizedCost S T level f = minimalCost r
                   \<longrightarrow> week r \<le> T))
       \<and> (\<exists>m d. calculateOptimalAmortizedCost a S level = \<lparr>optimalCost = m, duration = d\<rparr>
            \<and> m = Min ((\<lambda>T. amortizedCost_spec S T level a) ` {1..500})
            \<and> d \<in> {1..500}
            \<and> amortizedCost_spec S d level a = m
            \<and> (\<forall>T\<in>{1..500}. amortizedCost_spec S T level a = m \<longrightarrow> d \<le> T))
       \<and> (\<exists>m d. calculateOptimalAmortizedCost_cli a S level
                   = \<lparr>optimalCost = Finite m, duration = d\<rparr>
            \<and> m = Min ((\<lambda>T. amortizedCost_spec S T level a) ` {1..150})
            \<and> d \<in> {1..150}
            \<and> amortizedCost_spec S d level a = m
            \<and> (\<forall>T\<in>{1..150}. amortizedCost_spec S T level a = m \<longrightarrow> d \<le> T))"
proof -
  let ?c = "\<lambda>T. calculateAmortizedCost S T level f"
  obtain w where w: "findAmortizedCostMinimum S level f = Some \<lparr>week = w, minimalCost = ?c w\<rparr>"
    "firstMinimizer ?c 500 w"
    using findAmortizedCostMinimum_firstMinimizer[OF assms, of S f] by blast
  have w1: "?c w = Min (?c ` {1..500})" using w(2) by (rule firstMinimizer_Min)
  have w2: "w \<in> {1..500}" using w(2) unfolding firstMinimizer_def by simp
  have w3: "\<forall>T\<in>{1..500}. ?c T = ?c w \<longrightarrow> w \<le> T"
    using firstMinimizer_least[OF w(2)] by simp
  have first: "\<exists>r. findAmortizedCostMinimum S level f = Some r
            \<and> minimalCost r = Min (?c ` {1..500})
            \<and> week r \<in> {1..500}
            \<and> ?c (week r) = minimalCost r
            \<and> (\<forall>T\<in>{1..500}. ?c T = minimalCost r \<longrightarrow> week r \<le> T)"
    using w(1) w1 w2 w3 by simp
  let ?k = "\<lambda>T. amortizedCost_spec S T level a"
  let ?e = "findOptimalDuration a S level"
  have e: "firstMinimizer ?k 500 ?e" using assms by (rule findOptimalDuration_firstMinimizer)
  have e1: "?k ?e = Min (?k ` {1..500})" using e by (rule firstMinimizer_Min)
  have e2: "?e \<in> {1..500}" using e unfolding firstMinimizer_def by simp
  have e3: "\<forall>T\<in>{1..500}. ?k T = ?k ?e \<longrightarrow> ?e \<le> T"
    using firstMinimizer_least[OF e] by simp
  have chart: "\<exists>m d. calculateOptimalAmortizedCost a S level = \<lparr>optimalCost = m, duration = d\<rparr>
            \<and> m = Min (?k ` {1..500}) \<and> d \<in> {1..500} \<and> ?k d = m
            \<and> (\<forall>T\<in>{1..500}. ?k T = m \<longrightarrow> d \<le> T)"
    using calculateOptimalAmortizedCost_eq[of a S level] e1 e2 e3
    by (intro exI[of _ "?k ?e"] exI[of _ ?e]) simp
  obtain d where d: "calculateOptimalAmortizedCost_cli a S level
                        = \<lparr>optimalCost = Finite (?k d), duration = d\<rparr>"
    "firstMinimizer ?k 150 d"
    using calculateOptimalAmortizedCost_cli_firstMinimizer[OF assms, of a S] by blast
  have d1: "?k d = Min (?k ` {1..150})" using d(2) by (rule firstMinimizer_Min)
  have d2: "d \<in> {1..150}" using d(2) unfolding firstMinimizer_def by simp
  have d3: "\<forall>T\<in>{1..150}. ?k T = ?k d \<longrightarrow> d \<le> T"
    using firstMinimizer_least[OF d(2)] by simp
  have cli: "\<exists>m d. calculateOptimalAmortizedCost_cli a S level
                   = \<lparr>optimalCost = Finite m, duration = d\<rparr>
            \<and> m = Min (?k ` {1..150}) \<and> d \<in> {1..150} \<and> ?k d = m
            \<and> (\<forall>T\<in>{1..150}. ?k T = m \<longrightarrow> d \<le> T)"
    using d(1) d1 d2 d3 by (intro exI[of _ "?k d"] exI[of _ d]) simp
  from first chart cli show ?thesis by blast
qed

text \<open>
  Claim C1 at salary 8000, level 3 and the initial market data (hiring cost 1000).
\<close>

theorem duration_optimizer_first_minimum_witness:
  "growthFactor 3 \<noteq> 0
   \<and> (\<exists>r. findAmortizedCostMinimum 8000 3 (generateHiringFormula INITIAL_HIRING_DATA) = Some r
        \<and> minimalCost r
            = Min ((\<lambda>T. calculateAmortizedCost 8000 T 3 (generateHiringFormula INITIAL_HIRING_DATA))
                     ` {1..500})
        \<and> week r \<in> {1..500})
   \<and> (\<exists>m d. calculateOptimalAmortizedCost 1000 8000 3 = \<lparr>optimalCost = m, duration = d\<rparr>
        \<and> m = Min ((\<lambda>T. amortizedCost_spec 8000 T 3 1000) ` {1..500}) \<and> d \<in> {1..500})
   \<and> (\<exists>m d. calculateOptimalAmortizedCost_cli 1000 8000 3
               = \<lparr>optimalCost = Finite m, duration = d\<rparr>
        \<and> m = Min ((\<lambda>T. amortizedCost_spec 8000 T 3 1000) ` {1..150}) \<and> d \<in> {1..150})"
proof -
  have g: "growthFactor 3 \<noteq> 0" unfolding growthFactor_def by simp
  show ?thesis
    using g duration_optimizer_first_minimum [OF g, of 8000 "generateHiringFormula INITIAL_HIRING_DATA" 1000]
    by blast
qed

text \<open>
  Claim C1 as stated speaks of every level. At level \<open>-3\<close> the growth factor is zero:
  \<open>findAmortizedCostMinimum\<close> returns \<open>null\<close> instead of a pair (its first test); the chart's
  \<open>calculateOptimalAmortizedCost\<close> returns the default duration 100 and its cost 8090, when
  duration 500 costs 8018; and the script's \<open>calculateOptimalAmortizedCost\<close> returns its
  start values \<open>(Infinity, 1)\<close>.
\<close>

theorem duration_optimizer_zero_growth_counterexample:
  "growthFactor (-3) = 0
   \<and> findAmortizedCostMinimum 8000 (-3) (generateHiringFormula INITIAL_HIRING_DATA) = None
   \<and> calculateOptimalAmortizedCost 1000 8000 (-3) = \<lparr>optimalCost = 8090, duration = 100\<rparr>
   \<and> amortizedCost_spec 8000 500 (-3) 1000 = 8018
   \<and> calculateOptimalAmortizedCost_cli 1000 8000 (-3) = \<lparr>optimalCost = Infinity, duration = 1\<rparr>"
proof -
  have g: "growthFactor (-3) = 0" unfolding growthFactor_def by simp
  have 1: "findAmortizedCostMinimum 8000 (-3) (generateHiringFormula INITIAL_HIRING_DATA) = None"
    unfolding findAmortizedCostMinimum_def g by simp
  have 2: "calculateOptimalAmortizedCost 1000 8000 (-3) = \<lparr>optimalCost = 8090, duration = 100\<rparr>"
    unfolding calculateOptimalAmortizedCost_def findOptimalDuration_def g by simp
  have 3: "amortizedCost_spec 8000 500 (-3) 1000 = 8018"
    unfolding amortizedCost_spec_def g by simp
  have 4: "calculateOptimalAmortizedCost_cli 1000 8000 (-3) = \<lparr>optimalCost = Infinity, duration = 1\<rparr>"
    unfolding calculateOptimalAmortizedCost_cli_def g by simp
  from g 1 2 3 4 show ?thesis by blast
qed

text \<open>
  Claim C2. For every salary \<open>> 0\<close>, duration \<open>\<ge> 1\<close>, level \<open>\<ge> 1\<close> and acquisition cost
  \<open>\<ge> 0\<close> the amortized cost is not negative, and it does not fall when the acquisition
  cost rises: for the cost expression of the duration scans, and for
  \<open>calculateAmortizedCost\<close> at any formula that estimates the acquisition cost so. Hence the
  optimal amortized cost \<open>calculateOptimalAmortizedCost\<close> returns is not negative and does
  not fall either when the acquisition cost rises.
\<close>

theorem amortizedCost_nonneg_monotone:
  assumes "0 < S" "1 \<le> T" "1 \<le> level" "0 \<le> a" "a \<le> a'"
  shows "0 \<le> (a + S * ((1 + growthFactor level) ^ (T + 1) - 1) / growthFactor level) / real T
    \<and> (a + S * ((1 + growthFactor level) ^ (T + 1) - 1) / growthFactor level) / real T
        \<le> (a' + S * ((1 + growthFactor level) ^ (T + 1) - 1) / growthFactor level) / real T
    \<and> (hiringCost S level f = a \<longrightarrow> 0 \<le> calculateAmortizedCost S T level f)
    \<and> (hiringCost S level f = a \<and> hiringCost S level f' = a' \<longrightarrow>
          calculateAmortizedCost S T level f \<le> calculateAmortizedCost S T level f')
    \<and> 0 \<le> optimalCost (calculateOptimalAmortizedCost a S level)
    \<and> optimalCost (calculateOptimalAmortizedCost a S level)
        \<le> optimalCost (calculateOptimalAmortizedCost a' S level)"
proof -
  have nz: "growthFactor level \<noteq> 0" using growthFactor_pos[OF assms(3)] by simp
  have eq: "\<And>x. amortizedCost_spec S T level x
      = (x + S * ((1 + growthFactor level) ^ (T + 1) - 1) / growthFactor level) / real T"
    unfolding amortizedCost_spec_def using nz by simp
  have 1: "0 \<le> amortizedCost_spec S T level a"
    using assms(1,3,4) by (rule amortizedCost_nonneg)
  have 2: "amortizedCost_spec S T level a \<le> amortizedCost_spec S T level a'"
    using assms(5) by (rule amortizedCost_mono)
  have 3: "hiringCost S level f = a \<longrightarrow> 0 \<le> calculateAmortizedCost S T level f"
    using 1 by (simp add: calculateAmortizedCost_amortizedCost)
  have 4: "hiringCost S level f = a \<and> hiringCost S level f' = a' \<longrightarrow>
          calculateAmortizedCost S T level f \<le> calculateAmortizedCost S T level f'"
    using 2 by (simp add: calculateAmortizedCost_amortizedCost)
  have 5: "0 \<le> optimalCost (calculateOptimalAmortizedCost a S level)"
    unfolding optimalCost_eq using assms(1,3,4) by (rule amortizedCost_nonneg)
  have 6: "optimalCost (calculateOptimalAmortizedCost a S level)
        \<le> optimalCost (calculateOptimalAmortizedCost a' S level)"
    using assms(5) by (rule optimalCost_mono)
  from 1 2 3 4 5 6 show ?thesis unfolding eq by blast
qed

text \<open>Claim C2 at salary 8000, duration 2, level 3 and the hiring costs 1000 and 2000.\<close>

theorem amortizedCost_nonneg_monotone_witness:
  "(0::real) < 8000 \<and> (1::nat) \<le> 2 \<and> (1::real) \<le> 3 \<and> (0::real) \<le> 1000 \<and> (1000::real) \<le> 2000
   \<and> 0 \<le> optimalCost (calculateOptimalAmortizedCost 1000 8000 3)
   \<and> optimalCost (calculateOptimalAmortizedCost 1000 8000 3)
        \<le> optimalCost (calculateOptimalAmortizedCost 2000 8000 3)"
  using amortizedCost_nonneg_monotone[of 8000 2 3 1000 2000 "generateHiringFormula INITIAL_HIRING_DATA"
      "generateHiringFormula INITIAL_HIRING_DATA"]
  by simp

text \<open>
  Claim C3, as the code has it. For every salary and level and every acquisition cost \<open>c\<close>
  strictly inside the bracket \<open>[1000, 1000000]\<close>, with \<open>cost*\<close> the optimal amortized cost at
  \<open>c\<close>: \<open>findHiringCostForTarget(cost*, salary, level)\<close> returns an acquisition cost strictly
  inside the bracket whose optimal amortized cost is within 1 of \<open>cost*\<close>, together with the
  optimal duration at that acquisition cost. The tolerance of the bisection is on the
  amortized cost; the returned acquisition cost is therefore within 500 of \<open>c\<close> (the
  tolerance times the longest duration), not within 1. The same holds for the script,
  with 150 for 500, whenever its \<open>cost*\<close> is finite (the growth factor is not zero).
\<close>

theorem inversion_roundtrip_cost:
  assumes "1000 < c" "c < 1000000"
  shows "(\<bar>optimalCost (calculateOptimalAmortizedCost
             (bestHiringCost (findHiringCostForTarget
                (optimalCost (calculateOptimalAmortizedCost c S level)) S level)) S level)
          - optimalCost (calculateOptimalAmortizedCost c S level)\<bar> < 1
    \<and> bestDuration (findHiringCostForTarget
          (optimalCost (calculateOptimalAmortizedCost c S level)) S level)
        = duration (calculateOptimalAmortizedCost
             (bestHiringCost (findHiringCostForTarget
                (optimalCost (calculateOptimalAmortizedCost c S level)) S level)) S level)
    \<and> 1000 < bestHiringCost (findHiringCostForTarget
          (optimalCost (calculateOptimalAmortizedCost c S level)) S level)
    \<and> bestHiringCost (findHiringCostForTarget
          (optimalCost (calculateOptimalAmortizedCost c S level)) S level) < 1000000
    \<and> \<bar>bestHiringCost (findHiringCostForTarget
          (optimalCost (calculateOptimalAmortizedCost c S level)) S level) - c\<bar> < 500)
   \<and> (optimalCost (calculateOptimalAmortizedCost_cli c S level) = Finite t \<longrightarrow>
        (\<exists>x m. bestHiringCost (findHiringCostForTarget_cli t S level) = x
           \<and> optimalCost (calculateOptimalAmortizedCost_cli x S level) = Finite m
           \<and> \<bar>m - t\<bar> < 1
           \<and> bestDuration (findHiringCostForTarget_cli t S level)
               = duration (calculateOptimalAmortizedCost_cli x S level)
           \<and> 1000 < x \<and> x < 1000000 \<and> \<bar>x - c\<bar> < 150))"
proof -
  let ?t = "optimalCost (calculateOptimalAmortizedCost c S level)"
  obtain x where x: "findHiringCostForTarget ?t S level
      = \<lparr>bestHiringCost = x, bestDuration = duration (calculateOptimalAmortizedCost x S level)\<rparr>"
    "\<bar>optimalCost (calculateOptimalAmortizedCost x S level) - ?t\<bar> < 1" "1000 < x" "x < 1000000"
    using findHiringCostForTarget_reachable[of S level ?t] optimalCost_mono[of 1000 c S level]
      optimalCost_mono[of c 1000000 S level] assms
    by auto
  have "\<bar>x - c\<bar> < 500" using x(2) by (rule optimalCost_close_imp_near)
  with x have chart: "\<bar>optimalCost (calculateOptimalAmortizedCost
             (bestHiringCost (findHiringCostForTarget ?t S level)) S level) - ?t\<bar> < 1
    \<and> bestDuration (findHiringCostForTarget ?t S level)
        = duration (calculateOptimalAmortizedCost
             (bestHiringCost (findHiringCostForTarget ?t S level)) S level)
    \<and> 1000 < bestHiringCost (findHiringCostForTarget ?t S level)
    \<and> bestHiringCost (findHiringCostForTarget ?t S level) < 1000000
    \<and> \<bar>bestHiringCost (findHiringCostForTarget ?t S level) - c\<bar> < 500"
    by simp
  show ?thesis using chart cli_roundtrip[OF assms, of S level t] by blast
qed

text \<open>Claim C3, as the code has it, at salary 7000, level 4 and \<open>c = 500470\<close>.\<close>

theorem inversion_roundtrip_cost_witness:
  "(1000::real) < 500470 \<and> (500470::real) < 1000000
   \<and> \<bar>optimalCost (calculateOptimalAmortizedCost
             (bestHiringCost (findHiringCostForTarget
                (optimalCost (calculateOptimalAmortizedCost 500470 7000 4)) 7000 4)) 7000 4)
          - optimalCost (calculateOptimalAmortizedCost 500470 7000 4)\<bar> < 1
   \<and> \<bar>bestHiringCost (findHiringCostForTarget
          (optimalCost (calculateOptimalAmortizedCost 500470 7000 4)) 7000 4) - 500470\<bar> < 500
   \<and> optimalCost (calculateOptimalAmortizedCost_cli 500470 7000 4)
        = Finite (Min ((\<lambda>T. amortizedCost_spec 7000 T 4 500470) ` {1..150}))
   \<and> \<bar>bestHiringCost (findHiringCostForTarget_cli
          (Min ((\<lambda>T. amortizedCost_spec 7000 T 4 500470) ` {1..150})) 7000 4) - 500470\<bar> < 150"
proof -
  have a: "(1000::real) < 500470" and b: "(500470::real) < 1000000" by simp_all
  have g: "growthFactor 4 \<noteq> 0" unfolding growthFactor_def by simp
  have f: "optimalCost (calculateOptimalAmortizedCost_cli 500470 7000 4)
        = Finite (Min ((\<lambda>T. amortizedCost_spec 7000 T 4 500470) ` {1..150}))"
    using g by (rule cli_optimalCost)
  show ?thesis
    using a b f inversion_roundtrip_cost[OF a b, of 7000 4 "Min ((\<lambda>T. amortizedCost_spec 7000 T 4 500470) ` {1..150})"]
    by blast
qed

text \<open>
  Claim C3 as stated fails at salary 7000, level 4 and \<open>c = 500470\<close>. The first midpoint
  of the bisection is 500500. The optimal duration at 500470 is at least 31, so 30 more
  of hiring cost raise the optimal amortized cost by at most \<open>30 / 31\<close>: the first midpoint
  is already close enough and is returned, 30 away from \<open>c\<close>.
\<close>

theorem inversion_roundtrip_fee_counterexample:
  "(1000::real) < 500470 \<and> (500470::real) < 1000000
   \<and> bestHiringCost (findHiringCostForTarget
        (optimalCost (calculateOptimalAmortizedCost 500470 7000 4)) 7000 4) = 500500
   \<and> \<not> \<bar>bestHiringCost (findHiringCostForTarget
        (optimalCost (calculateOptimalAmortizedCost 500470 7000 4)) 7000 4) - 500470\<bar> \<le> 1"
proof -
  let ?F = "\<lambda>x. optimalCost (calculateOptimalAmortizedCost x 7000 4)"
  let ?d = "findOptimalDuration 500470 7000 4"
  have d: "31 \<le> real ?d" using roundtrip_duration_ge_31 by simp
  have "?F 500500 \<le> ?F 500470 + (500500 - 500470) / real ?d"
    by (intro optimalCost_rise) simp
  moreover have "(500500 - 500470) / real ?d \<le> 30 / 31"
    using d by (simp add: field_simps)
  moreover have "?F 500470 \<le> ?F 500500" by (intro optimalCost_mono) simp
  ultimately have close: "\<bar>?F 500500 - ?F 500470\<bar> < 1" by simp
  have mid: "((1000::real) + 1000000) / 2 = 500500" by simp
  have "bestHiringCost (findHiringCostForTarget (?F 500470) 7000 4) = 500500"
    unfolding findHiringCostForTarget_def
    using close by (simp add: bisectionLoop.simps[of _ _ _ 0] Let_def mid)
  then show ?thesis by simp
qed

text \<open>
  Claim C4. For every salary, week \<open>T \<ge> 1\<close>, level and formula, \<open>calculateAmortizedCost\<close>
  returns \<open>(h + S * ((1 + g) ^ (T + 1) - 1) / g) / T\<close> with \<open>g\<close> the growth factor of the level
  and \<open>h\<close> the estimated hiring cost, and \<open>(h + S * (T + 1)) / T\<close> when \<open>g = 0\<close>. Both are
  \<open>(h + S * (\<Sum>t = 0..T. (1 + g) ^ t)) / T\<close>, the sum of the specification.
\<close>

theorem calculateAmortizedCost_closed_form:
  assumes "1 \<le> T"
  shows "calculateAmortizedCost S T level f =
      (if growthFactor level = 0 then (hiringCost S level f + S * (real T + 1)) / real T
       else (hiringCost S level f
               + S * ((1 + growthFactor level) ^ (T + 1) - 1) / growthFactor level) / real T)
    \<and> calculateAmortizedCost S T level f =
        (hiringCost S level f + S * (\<Sum>t = 0..T. (1 + growthFactor level) ^ t)) / real T"
  unfolding calculateAmortizedCost_amortizedCost
  using amortizedCost_sum[of S T level "hiringCost S level f"]
  by (simp add: amortizedCost_spec_def)

text \<open>Claim C4 at salary 8000, week 2, level 3 and the initial market data.\<close>

theorem calculateAmortizedCost_closed_form_witness:
  "(1::nat) \<le> 2 \<and> calculateAmortizedCost 8000 2 3 (generateHiringFormula INITIAL_HIRING_DATA)
      = (1000 + 8000 * ((1 + 0.015) ^ 3 - 1) / 0.015) / 2"
proof -
  have g: "growthFactor 3 = 0.015" unfolding growthFactor_def by simp
  note h = initial_hiringCost_8000
  show ?thesis using calculateAmortizedCost_closed_form[of 2 8000 3 "generateHiringFormula INITIAL_HIRING_DATA"]
    unfolding g h by simp
qed

text \<open>
  Claim C5. For every level \<open>\<ge> 1\<close> the growth factor is \<open>0.01 + (level - 1) * 0.0025\<close>, it is
  strictly increasing in the level, and it is \<open>0.01\<close> at level 1.
\<close>

theorem growthFactor_formula_increasing:
  assumes "1 \<le> l1" "l1 < l2"
  shows "growthFactor l1 = 0.01 + (l1 - 1) * 0.0025 \<and> growthFactor l1 < growthFactor l2
         \<and> growthFactor 1 = 0.01"
  using assms unfolding growthFactor_def by simp

text \<open>Claim C5 at levels 1 and 2.\<close>

theorem growthFactor_formula_increasing_witness:
  "(1::real) \<le> 1 \<and> (1::real) < 2 \<and> growthFactor 1 = 0.01 + (1 - 1) * 0.0025
   \<and> growthFactor 1 < growthFactor 2 \<and> growthFactor 1 = 0.01"
  using growthFactor_formula_increasing[of 1 2] by simp

text \<open>
  Claim C6. For every non-empty list of reference points of pairwise different salaries,
  \<open>interpolateHiringCost\<close> at the salary of a point of the list returns the cost of that
  point, and at the midpoint \<open>(s1 + s2) / 2\<close> of two adjacent points \<open>(s1, c1)\<close> and
  \<open>(s2, c2)\<close> (no point of the list has a salary strictly between \<open>s1\<close> and \<open>s2\<close>) it
  returns \<open>(c1 + c2) / 2\<close>.
\<close>

theorem interpolation_exact_and_midpoint:
  assumes "pts \<noteq> []" "distinct (map salary pts)"
  shows "(\<forall>p \<in> set pts. interpolateHiringCost (salary p) pts = Some (cost p))
    \<and> (\<forall>p1 \<in> set pts. \<forall>p2 \<in> set pts.
          salary p1 < salary p2
          \<and> (\<forall>q \<in> set pts. \<not> (salary p1 < salary q \<and> salary q < salary p2))
          \<longrightarrow> interpolateHiringCost ((salary p1 + salary p2) / 2) pts
                = Some ((cost p1 + cost p2) / 2))"
  using interpolate_exact[OF assms(2)] interpolate_midpoint[OF assms(2)] by blast

text \<open>
  Claim C6 at the initial points of level 3: the cost 10000 at the salary 7000 of a point,
  and 20000 at 6500, midway between the points of salary 6000 and 7000.
\<close>

theorem interpolation_exact_and_midpoint_witness:
  "[\<lparr>salary = 6000, cost = 30000\<rparr>, \<lparr>salary = 7000, cost = 10000\<rparr>,
      \<lparr>salary = 8000, cost = 1000\<rparr>, \<lparr>salary = 9000, cost = 1000\<rparr>, \<lparr>salary = 10000, cost = 1000\<rparr>,
      \<lparr>salary = 11000, cost = 1000\<rparr>, \<lparr>salary = 12000, cost = 1000\<rparr>] \<noteq> []
   \<and> distinct (map salary [\<lparr>salary = 6000, cost = 30000\<rparr>, \<lparr>salary = 7000, cost = 10000\<rparr>,
      \<lparr>salary = 8000, cost = 1000\<rparr>, \<lparr>salary = 9000, cost = 1000\<rparr>, \<lparr>salary = 10000, cost = 1000\<rparr>,
      \<lparr>salary = 11000, cost = 1000\<rparr>, \<lparr>salary = 12000, cost = 1000\<rparr>])
   \<and> interpolateHiringCost 7000 [\<lparr>salary = 6000, cost = 30000\<rparr>, \<lparr>salary = 7000, cost = 10000\<rparr>,
      \<lparr>salary = 8000, cost = 1000\<rparr>, \<lparr>salary = 9000, cost = 1000\<rparr>, \<lparr>salary = 10000, cost = 1000\<rparr>,
      \<lparr>salary = 11000, cost = 1000\<rparr>, \<lparr>salary = 12000, cost = 1000\<rparr>] = Some 10000
   \<and> interpolateHiringCost 6500 [\<lparr>salary = 6000, cost = 30000\<rparr>, \<lparr>salary = 7000, cost = 10000\<rparr>,
      \<lparr>salary = 8000, cost = 1000\<rparr>, \<lparr>salary = 9000, cost = 1000\<rparr>, \<lparr>salary = 10000, cost = 1000\<rparr>,
      \<lparr>salary = 11000, cost = 1000\<rparr>, \<lparr>salary = 12000, cost = 1000\<rparr>] = Some 20000"
proof -
  let ?pts = "[\<lparr>salary = 6000, cost = 30000\<rparr>, \<lparr>salary = 7000, cost = 10000\<rparr>,
      \<lparr>salary = 8000, cost = 1000\<rparr>, \<lparr>salary = 9000, cost = 1000\<rparr>, \<lparr>salary = 10000, cost = 1000\<rparr>,
      \<lparr>salary = 11000, cost = 1000\<rparr>, \<lparr>salary = 12000, cost = 1000\<rparr>]"
  have ne: "?pts \<noteq> []" by simp
  have d: "distinct (map salary ?pts)" by simp
  from interpolation_exact_and_midpoint[OF ne d] have
    ex: "\<forall>p \<in> set ?pts. interpolateHiringCost (salary p) ?pts = Some (cost p)" and
    mid: "\<forall>p1 \<in> set ?pts. \<forall>p2 \<in> set ?pts.
          salary p1 < salary p2
          \<and> (\<forall>q \<in> set ?pts. \<not> (salary p1 < salary q \<and> salary q < salary p2))
          \<longrightarrow> interpolateHiringCost ((salary p1 + salary p2) / 2) ?pts
                = Some ((cost p1 + cost p2) / 2)"
    by blast+
  have "interpolateHiringCost (salary \<lparr>salary = 7000, cost = 10000\<rparr>) ?pts
          = Some (cost \<lparr>salary = 7000, cost = 10000\<rparr>)"
    using ex by simp
  then have a: "interpolateHiringCost 7000 ?pts = Some 10000" by simp
  have "interpolateHiringCost ((salary \<lparr>salary = 6000, cost = 30000\<rparr>
            + salary \<lparr>salary = 7000, cost = 10000\<rparr>) / 2) ?pts
          = Some ((cost \<lparr>salary = 6000, cost = 30000\<rparr> + cost \<lparr>salary = 7000, cost = 10000\<rparr>) / 2)"
    using mid by simp
  then have b: "interpolateHiringCost 6500 ?pts = Some 20000" by simp
  show ?thesis using ne d a b by blast
qed

text \<open>
  Claim C7. For every salary, level and formula, \<open>hiringCost\<close> returns at least 1000; when
  the level has no parameters, or no reference point at all, it returns exactly 1000.
  The floor is the last operation of \<open>hiringCost\<close>: the bound holds whatever number the
  interpolator returns.
\<close>

theorem hiringCost_floor:
  "1000 \<le> hiringCost s level f
    \<and> (parameters f level = None \<or> (\<exists>ps. parameters f level = Some ps \<and> points ps = [])
         \<longrightarrow> hiringCost s level f = 1000)"
  unfolding hiringCost_def by (auto split: option.splits)

text \<open>
  Claim C7 at the initial market data: level 3 has reference points, level 5 has none.
\<close>

theorem hiringCost_floor_witness:
  "1000 \<le> hiringCost 6500 3 (generateHiringFormula INITIAL_HIRING_DATA)
   \<and> parameters (generateHiringFormula INITIAL_HIRING_DATA) 5 = None
   \<and> hiringCost 8000 5 (generateHiringFormula INITIAL_HIRING_DATA) = 1000"
  using hiringCost_floor[of 6500 3 "generateHiringFormula INITIAL_HIRING_DATA"]
    hiringCost_floor[of 8000 5 "generateHiringFormula INITIAL_HIRING_DATA"] initial_level5
  by blast



text \<open>
  Claim C9. For every level \<open>\<ge> 1\<close> the growth factor is strictly positive, so no test
  \<open>g === 0\<close> succeeds: \<open>calculateAmortizedCost\<close> returns the closed form,
  \<open>findAmortizedCostMinimum\<close> does not return \<open>null\<close>, \<open>findOptimalDuration\<close> returns what its
  scan finds, and \<open>calculateOptimalAmortizedCost\<close> uses the closed form.
\<close>

theorem zero_growth_branches_unreachable:
  assumes "1 \<le> level"
  shows "0 < growthFactor level
    \<and> calculateAmortizedCost S T level f =
        (hiringCost S level f + S * ((1 + growthFactor level) ^ (T + 1) - 1) / growthFactor level)
          / real T
    \<and> findAmortizedCostMinimum S level f \<noteq> None
    \<and> findOptimalDuration h S level =
        fst (scanLoop (\<lambda>T. (h + S * ((1 + growthFactor level) ^ (T + 1) - 1) / growthFactor level)
                              / real T) 500 1 1 Infinity)
    \<and> optimalCost (calculateOptimalAmortizedCost h S level) =
        (h + S * ((1 + growthFactor level) ^ (findOptimalDuration h S level + 1) - 1)
               / growthFactor level) / real (findOptimalDuration h S level)"
proof -
  have g: "0 < growthFactor level" using assms by (rule growthFactor_pos)
  then have nz: "growthFactor level \<noteq> 0" by simp
  have 1: "calculateAmortizedCost S T level f =
        (hiringCost S level f + S * ((1 + growthFactor level) ^ (T + 1) - 1) / growthFactor level)
          / real T"
    unfolding calculateAmortizedCost_def Let_def using nz by simp
  have 2: "findAmortizedCostMinimum S level f \<noteq> None"
    using findAmortizedCostMinimum_firstMinimizer[OF nz, of S f] by auto
  have 3: "findOptimalDuration h S level =
        fst (scanLoop (\<lambda>T. (h + S * ((1 + growthFactor level) ^ (T + 1) - 1) / growthFactor level)
                              / real T) 500 1 1 Infinity)"
    unfolding findOptimalDuration_def Let_def using nz by simp
  have 4: "optimalCost (calculateOptimalAmortizedCost h S level) =
        (h + S * ((1 + growthFactor level) ^ (findOptimalDuration h S level + 1) - 1)
               / growthFactor level) / real (findOptimalDuration h S level)"
    unfolding calculateOptimalAmortizedCost_def Let_def using nz by simp
  from g 1 2 3 4 show ?thesis by blast
qed

text \<open>Claim C9 at level 3.\<close>

theorem zero_growth_branches_unreachable_witness:
  "(1::real) \<le> 3 \<and> 0 < growthFactor 3
   \<and> findAmortizedCostMinimum 8000 3 (generateHiringFormula INITIAL_HIRING_DATA) \<noteq> None"
  using zero_growth_branches_unreachable[of 3 8000 1 "generateHiringFormula INITIAL_HIRING_DATA" 1000] by simp


end
